theory Spec2Isabelle
  imports Complex_Main
begin

section \<open>Photon emitting simulation: the simulation core of main.py\<close>

text \<open>
  The embedding follows \<^verbatim>\<open>src/main.py\<close>. Python floats are read as real numbers
  (no rounding, no signed zero), Python ints as \<open>int\<close>. Every call of
  \<^verbatim>\<open>random.random()\<close> takes the next element of an explicit stream of draws, so that
  the functions of the model are deterministic in that stream. An exception of the
  source is a value \<open>Inl e\<close>.
\<close>

subsection \<open>Errors and the random source\<close>

datatype error = ValueError | ZeroDivisionError | IndexError

text \<open>The stream of results of \<^verbatim>\<open>random.random()\<close>, each in \<open>[0, 1)\<close>; the head is the
  next draw.\<close>

type_synonym rng = "nat \<Rightarrow> real"

definition random_random :: "rng \<Rightarrow> real \<times> rng" where
  "random_random g = (g 0, \<lambda>n. g (Suc n))"

text \<open>\<^verbatim>\<open>random.uniform(a, b)\<close> is \<^verbatim>\<open>a + (b - a) * random()\<close>.\<close>

definition random_uniform :: "real \<Rightarrow> real \<Rightarrow> rng \<Rightarrow> real \<times> rng" where
  "random_uniform a b g = (case random_random g of (u, g') \<Rightarrow> (a + (b - a) * u, g'))"

subsection \<open>Configuration: the module and class level variables\<close>

text \<open>\<^verbatim>\<open>axis_value\<close>, \<^verbatim>\<open>Circle.ate_probability\<close>, \<^verbatim>\<open>PhotonSource.frequency\<close>,
  \<^verbatim>\<open>PhotonSource.rays_step\<close> and the display size \<^verbatim>\<open>d_w, d_h\<close>. They are written only
  by the settings window, so the simulation functions take them as a parameter.\<close>

record config =
  axis_value :: real
  ate_probability :: real
  frequency :: int
  rays_step :: int
  d_w :: int
  d_h :: int

text \<open>\<^verbatim>\<open>axis = lambda: random.uniform(-axis_value, axis_value)\<close>\<close>

definition axis :: "config \<Rightarrow> rng \<Rightarrow> real \<times> rng" where
  "axis cfg g = random_uniform (- axis_value cfg) (axis_value cfg) g"

subsection \<open>Geometry\<close>

text \<open>The dataclass \<^verbatim>\<open>Point\<close>; its fields \<^verbatim>\<open>x\<close>, \<^verbatim>\<open>y\<close> are named \<open>px\<close>, \<open>py\<close> here.\<close>

record Point =
  px :: real
  py :: real

text \<open>\<^verbatim>\<open>math.dist\<close> of the two coordinate pairs.\<close>

definition distance :: "Point \<Rightarrow> Point \<Rightarrow> real" where
  "distance a b = sqrt ((px a - px b)\<^sup>2 + (py a - py b)\<^sup>2)"

text \<open>\<^verbatim>\<open>pygame.math.Vector2\<close>\<close>

record Vector2 =
  vx :: real
  vy :: real

definition dot :: "Vector2 \<Rightarrow> Vector2 \<Rightarrow> real" where
  "dot a b = vx a * vx b + vy a * vy b"

text \<open>pygame's \<^verbatim>\<open>VECTOR_EPSILON\<close>.\<close>

definition epsilon :: real where
  "epsilon = 1 / 1000000"

text \<open>Modelled from the spec: \<^verbatim>\<open>pygame.math.Vector2.reflect\<close> is library code that is not
  part of the source file. The spec gives it as the standard vector reflection
  \<open>v' = v - 2(v\<cdot>n)n/|n|\<^sup>2\<close>; \<open>reflect_formula\<close> is that expression. The library refuses
  a normal of (nearly) zero length with a ValueError instead of dividing by zero, which
  \<open>reflect\<close> keeps as an error branch.\<close>

definition reflect_formula :: "Vector2 \<Rightarrow> Vector2 \<Rightarrow> Vector2" where
  "reflect_formula v n =
     \<lparr>vx = vx v - 2 * dot v n * vx n / dot n n,
      vy = vy v - 2 * dot v n * vy n / dot n n\<rparr>"

definition reflect :: "Vector2 \<Rightarrow> Vector2 \<Rightarrow> error + Vector2" where
  "reflect v n = (if dot n n < epsilon then Inl ValueError else Inr (reflect_formula v n))"

text \<open>The same reflection with the normal scaled to unit length first.\<close>

definition unit_normal :: "Vector2 \<Rightarrow> Vector2" where
  "unit_normal n = \<lparr>vx = vx n / sqrt (dot n n), vy = vy n / sqrt (dot n n)\<rparr>"

text \<open>\<^verbatim>\<open>math.atan2(y, x)\<close> on the reals: the angle in \<open>(-\<pi>, \<pi>]\<close> of the point \<open>(x, y)\<close>,
  and 0 at the origin.\<close>

definition atan2 :: "real \<Rightarrow> real \<Rightarrow> real" where
  "atan2 b a =
     (if 0 < a then arctan (b / a)
      else if a < 0 then (if 0 \<le> b then arctan (b / a) + pi else arctan (b / a) - pi)
      else if 0 < b then pi / 2
      else if b < 0 then - pi / 2
      else 0)"

subsection \<open>Photons and figures\<close>

text \<open>An instance of \<^verbatim>\<open>Photon\<close>. \<open>pid\<close> is the identity of the Python object (what
  \<^verbatim>\<open>is\<close> compares; the class defines no \<^verbatim>\<open>__eq__\<close>), not an attribute of the source.
  The attribute \<^verbatim>\<open>surface\<close> is the shared display and is left out.\<close>

record Photon =
  pid :: nat
  coord :: Point
  angle :: real
  n_reflections :: nat

definition colors :: "string list" where
  "colors = [''white'', ''purple'', ''blue'', ''aqua'', ''green'', ''yellow'', ''orange'', ''red'']"

text \<open>\<^verbatim>\<open>Photon.__init__\<close>\<close>

definition Photon_init :: "nat \<Rightarrow> Point \<Rightarrow> real \<Rightarrow> Photon" where
  "Photon_init i c a = \<lparr>pid = i, coord = c, angle = a, n_reflections = 0\<rparr>"

datatype klass = Circle | PhotonSource

text \<open>An instance of \<^verbatim>\<open>Circle\<close> or of its subclass \<^verbatim>\<open>PhotonSource\<close>; \<open>klass\<close> is the
  dynamic class. \<open>ticks\<close> and \<open>enabled\<close> are read from the class defaults (0, True)
  until the instance assigns them, so they are instance fields starting at the
  defaults. \<open>photons\<close> is the instance attribute of that name when the instance has one:
  the address of a list object; \<open>None\<close> means the attribute is looked up in the class.\<close>

record figure =
  klass :: klass
  mid :: Point
  radius :: int
  activated_movement :: bool
  ticks :: int
  enabled :: bool
  photons :: "nat option"

text \<open>The attributes of an object of class \<open>c\<close> after \<^verbatim>\<open>Circle.__init__\<close>.\<close>

definition figure_init :: "klass \<Rightarrow> Point \<Rightarrow> int \<Rightarrow> figure" where
  "figure_init c m r =
     \<lparr>klass = c, mid = m, radius = r, activated_movement = False,
      ticks = 0, enabled = True, photons = None\<rparr>"

text \<open>\<^verbatim>\<open>Circle.collide\<close>\<close>

definition collide :: "figure \<Rightarrow> Point \<Rightarrow> bool" where
  "collide self p = (distance (mid self) p \<le> real_of_int (radius self))"

text \<open>\<^verbatim>\<open>Circle.compute_photon\<close>: \<open>None\<close> is the source's \<^verbatim>\<open>return None\<close> (absorbed),
  \<open>Some p'\<close> the returned photon with its new angle. The \<^verbatim>\<open>or\<close> is short-circuit: no
  draw is taken in the inner zone.\<close>

definition compute_photon :: "config \<Rightarrow> figure \<Rightarrow> Photon \<Rightarrow> rng \<Rightarrow> error + (Photon option \<times> rng)" where
  "compute_photon cfg self p g =
     (if distance (mid self) (coord p) \<le> real_of_int (radius self - 1) then Inr (None, g)
      else (case random_random g of (u, g1) \<Rightarrow>
        if u < ate_probability cfg then Inr (None, g1)
        else (let r_vec = \<lparr>vx = px (coord p) - px (mid self), vy = py (coord p) - py (mid self)\<rparr>;
                  p_vec = \<lparr>vx = cos (angle p), vy = sin (angle p)\<rparr>
              in (case reflect p_vec r_vec of
                    Inl e \<Rightarrow> Inl e
                  | Inr reflection \<Rightarrow>
                      (case axis cfg g1 of (j, g2) \<Rightarrow>
                         Inr (Some (p\<lparr>angle := atan2 (vy reflection) (vx reflection) + j\<rparr>),
                              g2))))))"

text \<open>The loop \<^verbatim>\<open>for fig in Figure.__objects__\<close> of \<^verbatim>\<open>Photon.blit\<close>, over the figures in
  registry order. The result is the photon as mutated, the value returned from inside
  the loop (\<open>Some (-1)\<close>) or \<open>None\<close> when the loop ran to its end, and the rest of the
  random stream.\<close>

fun collide_loop :: "config \<Rightarrow> figure list \<Rightarrow> Photon \<Rightarrow> rng \<Rightarrow> error + (Photon \<times> int option \<times> rng)" where
  "collide_loop cfg [] p g = Inr (p, None, g)"
| "collide_loop cfg (fig # figs) p g =
     (if collide fig (coord p) then
        (case compute_photon cfg fig p g of
           Inl e \<Rightarrow> Inl e
         | Inr (None, g') \<Rightarrow> Inr (p, Some (- 1), g')
         | Inr (Some p', g') \<Rightarrow>
             (let p'' = p'\<lparr>n_reflections := n_reflections p' + 1\<rparr>
              in if length colors \<le> n_reflections p'' then Inr (p'', Some (- 1), g')
                 else collide_loop cfg figs p'' g'))
      else collide_loop cfg figs p g)"

text \<open>\<^verbatim>\<open>Photon.blit\<close>. The two jitter draws are taken in argument order, x first. The last
  statement paints the pixel in \<^verbatim>\<open>colors[n_reflections]\<close>; of that the model keeps the
  index check, an IndexError when the index is out of range.\<close>

definition Photon_blit :: "config \<Rightarrow> figure list \<Rightarrow> Photon \<Rightarrow> rng \<Rightarrow> error + (Photon \<times> int option \<times> rng)" where
  "Photon_blit cfg figs self g =
     (case axis cfg g of (a1, g1) \<Rightarrow>
      case axis cfg g1 of (a2, g2) \<Rightarrow>
        let p1 = self\<lparr>coord := \<lparr>px = px (coord self) + cos (angle self) + a1 / 2,
                                py = py (coord self) + sin (angle self) + a2 / 2\<rparr>\<rparr>
        in if \<not> (0 \<le> px (coord p1) \<and> px (coord p1) \<le> real_of_int (d_w cfg)
                 \<and> 0 \<le> py (coord p1) \<and> py (coord p1) \<le> real_of_int (d_h cfg))
           then Inr (p1, Some (- 1), g2)
           else (case collide_loop cfg figs p1 g2 of
                   Inl e \<Rightarrow> Inl e
                 | Inr (p2, Some r, g3) \<Rightarrow> Inr (p2, Some r, g3)
                 | Inr (p2, None, g3) \<Rightarrow>
                     if n_reflections p2 < length colors then Inr (p2, None, g3)
                     else Inl IndexError))"

text \<open>The first statement of \<^verbatim>\<open>Photon.blit\<close> on its own, the photon moved one step with
  its two jitter draws, and the test of the second statement, the position being on the
  canvas. \<open>Photon_blit\<close> is restated in these terms by lemma \<open>Photon_blit_step\<close>.\<close>

definition Photon_step :: "config \<Rightarrow> Photon \<Rightarrow> rng \<Rightarrow> Photon \<times> rng" where
  "Photon_step cfg self g =
     (case axis cfg g of (a1, g1) \<Rightarrow>
      case axis cfg g1 of (a2, g2) \<Rightarrow>
        (self\<lparr>coord := \<lparr>px = px (coord self) + cos (angle self) + a1 / 2,
                          py = py (coord self) + sin (angle self) + a2 / 2\<rparr>\<rparr>, g2))"

definition on_canvas :: "config \<Rightarrow> Point \<Rightarrow> bool" where
  "on_canvas cfg c =
     (0 \<le> px c \<and> px c \<le> real_of_int (d_w cfg) \<and> 0 \<le> py c \<and> py c \<le> real_of_int (d_h cfg))"

subsection \<open>The object store and the registries\<close>

text \<open>Figures are referred to by address. \<open>heap\<close> holds the figure objects,
  \<open>list_heap\<close> the list objects that hold photons. The three registries are the class
  attributes \<^verbatim>\<open>Figure.__objects__\<close>, \<^verbatim>\<open>Circle.__objects__\<close> and
  \<^verbatim>\<open>PhotonSource.__objects__\<close>. \<open>next_oid\<close> and \<open>next_pid\<close> are the identities the next
  created figure and photon receive.\<close>

record world =
  Figure_objects :: "nat list"
  Circle_objects :: "nat list"
  PhotonSource_objects :: "nat list"
  heap :: "nat \<Rightarrow> figure"
  list_heap :: "nat \<Rightarrow> Photon list"
  rnd :: rng
  next_oid :: nat
  next_pid :: nat

text \<open>The class attribute \<^verbatim>\<open>photons: list[Photon] = []\<close> of \<^verbatim>\<open>PhotonSource\<close>: one list
  object, created when the class body runs, at address 0.\<close>

definition PhotonSource_photons :: nat where
  "PhotonSource_photons = 0"

text \<open>The attribute lookup \<^verbatim>\<open>self.photons\<close>: the instance attribute when there is one,
  the class attribute otherwise.\<close>

definition photons_of :: "figure \<Rightarrow> nat" where
  "photons_of self = (case photons self of Some a \<Rightarrow> a | None \<Rightarrow> PhotonSource_photons)"

text \<open>The state after the class bodies have run: no figure, the class list empty.\<close>

definition init_world :: "rng \<Rightarrow> world" where
  "init_world g =
     \<lparr>Figure_objects = [], Circle_objects = [], PhotonSource_objects = [],
      heap = (\<lambda>_. figure_init Circle \<lparr>px = 0, py = 0\<rparr> 0),
      list_heap = (\<lambda>_. []), rnd = g, next_oid = 0, next_pid = 0\<rparr>"

text \<open>\<^verbatim>\<open>Figure.__new__\<close> followed by \<^verbatim>\<open>Circle.__init__\<close>: the new object is appended to
  \<^verbatim>\<open>Figure.__objects__\<close> and to the \<^verbatim>\<open>__objects__\<close> of its own class.\<close>

definition new_figure :: "klass \<Rightarrow> Point \<Rightarrow> int \<Rightarrow> world \<Rightarrow> nat \<times> world" where
  "new_figure c m r w =
     (let a = next_oid w;
          w1 = w\<lparr>Figure_objects := Figure_objects w @ [a],
                 heap := (heap w)(a := figure_init c m r), next_oid := Suc a\<rparr>
      in (a, case c of
               Circle \<Rightarrow> w1\<lparr>Circle_objects := Circle_objects w @ [a]\<rparr>
             | PhotonSource \<Rightarrow> w1\<lparr>PhotonSource_objects := PhotonSource_objects w @ [a]\<rparr>))"

subsection \<open>PhotonSource: spawning and moving photons\<close>

text \<open>\<^verbatim>\<open>len(range(start, stop, step))\<close> and \<^verbatim>\<open>range(start, stop, step)\<close>; a zero step is a
  ValueError.\<close>

definition range_len :: "int \<Rightarrow> int \<Rightarrow> int \<Rightarrow> nat" where
  "range_len start stop step =
     (if 0 < step \<and> start < stop then nat (1 + (stop - 1 - start) div step)
      else if step < 0 \<and> stop < start then nat (1 + (start - 1 - stop) div (- step))
      else 0)"

definition py_range :: "int \<Rightarrow> int \<Rightarrow> int \<Rightarrow> error + int list" where
  "py_range start stop step =
     (if step = 0 then Inl ValueError
      else Inr (map (\<lambda>k. start + int k * step) [0..<range_len start stop step]))"

text \<open>The list comprehension of \<^verbatim>\<open>generate_photons\<close>: for each degree value one jitter
  draw, then one new photon.\<close>

fun spawn :: "config \<Rightarrow> figure \<Rightarrow> int list \<Rightarrow> nat \<Rightarrow> rng \<Rightarrow> Photon list \<times> rng" where
  "spawn cfg self [] i g = ([], g)"
| "spawn cfg self (d # ds) i g =
     (case axis cfg g of (j, g1) \<Rightarrow>
        let a = pi * real_of_int d / 180 + j;
            p = Photon_init i
                  \<lparr>px = px (mid self) + real_of_int (radius self + 1) * cos a,
                   py = py (mid self) + real_of_int (radius self + 1) * sin a + 1\<rparr> a
        in case spawn cfg self ds (Suc i) g1 of (ps, g2) \<Rightarrow> (p # ps, g2))"

text \<open>\<^verbatim>\<open>PhotonSource.generate_photons\<close>. \<^verbatim>\<open>self.photons += [...]\<close> looks the attribute up,
  extends that list object in place and then binds the instance attribute to it.\<close>

definition generate_photons :: "config \<Rightarrow> nat \<Rightarrow> world \<Rightarrow> error + world" where
  "generate_photons cfg self w =
     (let s = heap w self; a = photons_of s
      in case py_range 0 360 (rays_step cfg) of
           Inl e \<Rightarrow> Inl e
         | Inr degrees \<Rightarrow>
             (case spawn cfg s degrees (next_pid w) (rnd w) of (new, g') \<Rightarrow>
                Inr (w\<lparr>list_heap := (list_heap w)(a := list_heap w a @ new),
                       heap := (heap w)(self := s\<lparr>photons := Some a\<rparr>),
                       rnd := g', next_pid := next_pid w + length new\<rparr>)))"

text \<open>\<^verbatim>\<open>list.remove(p)\<close> on a list of photons: the first item that is \<^verbatim>\<open>p\<close> is taken out;
  \<open>None\<close> is the ValueError when there is none.\<close>

fun remove_photon :: "Photon \<Rightarrow> Photon list \<Rightarrow> Photon list option" where
  "remove_photon p [] = None"
| "remove_photon p (q # qs) =
     (if pid q = pid p then Some qs else map_option ((#) q) (remove_photon p qs))"

lemma remove_photon_length: "remove_photon p qs = Some rs \<Longrightarrow> Suc (length rs) = length qs"
  by (induction qs arbitrary: rs) (auto split: if_splits)

text \<open>The loop of \<^verbatim>\<open>PhotonSource.move_photons\<close>. Python's list iterator keeps an index
  \<open>i\<close> into the list object and stops when \<open>i\<close> reaches the current length; the body
  removes from the list that is being iterated. \<open>ps[i := p']\<close> is the mutation of the
  photon object at index \<open>i\<close> by \<^verbatim>\<open>p.blit()\<close>.\<close>

function move_loop :: "config \<Rightarrow> figure list \<Rightarrow> nat \<Rightarrow> Photon list \<Rightarrow> rng \<Rightarrow> error + (Photon list \<times> rng)" where
  "move_loop cfg figs i ps g =
     (if i < length ps then
        (case Photon_blit cfg figs (ps ! i) g of
           Inl e \<Rightarrow> Inl e
         | Inr (p', r, g') \<Rightarrow>
             if r = Some (- 1) then
               (case remove_photon p' (ps[i := p']) of
                  None \<Rightarrow> Inl ValueError
                | Some ps' \<Rightarrow> move_loop cfg figs (Suc i) ps' g')
             else move_loop cfg figs (Suc i) (ps[i := p']) g')
      else Inr (ps, g))"
  by pat_completeness auto
termination
proof (relation "measure (\<lambda>(cfg, figs, i, ps, g). length ps - i)")
  show "wf (measure (\<lambda>(cfg, figs, i, ps, g). length ps - i))"
    by simp
next
  fix cfg :: config and figs :: "figure list" and i :: nat and ps :: "Photon list"
    and g :: rng and p' :: Photon and ps' :: "Photon list" and g' :: rng
  assume "i < length ps" and "remove_photon p' (ps[i := p']) = Some ps'"
  then show "((cfg, figs, Suc i, ps', g'), cfg, figs, i, ps, g)
               \<in> measure (\<lambda>(cfg, figs, i, ps, g). length ps - i)"
    using remove_photon_length [of p' "ps[i := p']" ps'] by simp
next
  fix cfg :: config and figs :: "figure list" and i :: nat and ps :: "Photon list"
    and g :: rng and p' :: Photon and g' :: rng
  assume "i < length ps"
  then show "((cfg, figs, Suc i, ps[i := p'], g'), cfg, figs, i, ps, g)
               \<in> measure (\<lambda>(cfg, figs, i, ps, g). length ps - i)"
    by simp
qed

declare move_loop.simps [simp del]

text \<open>\<^verbatim>\<open>PhotonSource.move_photons\<close>\<close>

definition move_photons :: "config \<Rightarrow> nat \<Rightarrow> world \<Rightarrow> error + world" where
  "move_photons cfg self w =
     (let a = photons_of (heap w self)
      in case move_loop cfg (map (heap w) (Figure_objects w)) 0 (list_heap w a) (rnd w) of
           Inl e \<Rightarrow> Inl e
         | Inr (ps, g') \<Rightarrow> Inr (w\<lparr>list_heap := (list_heap w)(a := ps), rnd := g'\<rparr>))"

text \<open>The first five lines of \<^verbatim>\<open>PhotonSource.emit\<close>: the tick counter and the spawn.\<close>

definition emit_ticks :: "config \<Rightarrow> nat \<Rightarrow> world \<Rightarrow> error + world" where
  "emit_ticks cfg self w =
     (let w1 = w\<lparr>heap := (heap w)(self := (heap w self)\<lparr>ticks := ticks (heap w self) + 1\<rparr>)\<rparr>
      in if frequency cfg = 0 then Inl ZeroDivisionError
         else if ticks (heap w1 self) mod frequency cfg = 0 then
           (case (if enabled (heap w1 self) then generate_photons cfg self w1 else Inr w1) of
              Inl e \<Rightarrow> Inl e
            | Inr w2 \<Rightarrow> Inr (w2\<lparr>heap := (heap w2)(self := (heap w2 self)\<lparr>ticks := 0\<rparr>)\<rparr>))
         else Inr w1)"

text \<open>\<^verbatim>\<open>PhotonSource.emit\<close>: those lines, then \<^verbatim>\<open>self.move_photons()\<close>.\<close>

definition emit :: "config \<Rightarrow> nat \<Rightarrow> world \<Rightarrow> error + world" where
  "emit cfg self w =
     (case emit_ticks cfg self w of Inl e \<Rightarrow> Inl e | Inr w1 \<Rightarrow> move_photons cfg self w1)"


subsection \<open>Input events\<close>

datatype key = K_r | K_c | K_ESCAPE | K_other

text \<open>The events the handlers look at, with the attributes they read: \<^verbatim>\<open>pos\<close> and
  \<^verbatim>\<open>button\<close>, the wheel's \<^verbatim>\<open>y\<close>, the \<^verbatim>\<open>key\<close>. Every other event type is \<open>OTHER\<close>.\<close>

datatype event =
    MOUSEMOTION Point
  | MOUSEBUTTONDOWN Point int
  | MOUSEBUTTONUP Point int
  | MOUSEWHEEL int
  | KEYDOWN key
  | OTHER

text \<open>\<^verbatim>\<open>list.remove(x)\<close> on a registry, \<open>None\<close> for the ValueError.\<close>

definition py_remove :: "nat \<Rightarrow> nat list \<Rightarrow> nat list option" where
  "py_remove a as = (if a \<in> set as then Some (remove1 a as) else None)"

definition set_obj :: "nat \<Rightarrow> figure \<Rightarrow> world \<Rightarrow> world" where
  "set_obj self s w = w\<lparr>heap := (heap w)(self := s)\<rparr>"

text \<open>The removal in \<^verbatim>\<open>Circle.listen\<close>: from \<^verbatim>\<open>self.__objects__\<close>, the registry of the
  object's own class, then from \<^verbatim>\<open>Figure.__objects__\<close>.\<close>

definition unregister :: "nat \<Rightarrow> world \<Rightarrow> error + world" where
  "unregister self w =
     (case klass (heap w self) of
        Circle \<Rightarrow>
          (case py_remove self (Circle_objects w) of
             None \<Rightarrow> Inl ValueError
           | Some cs \<Rightarrow>
               (case py_remove self (Figure_objects w) of
                  None \<Rightarrow> Inl ValueError
                | Some fs \<Rightarrow> Inr (w\<lparr>Circle_objects := cs, Figure_objects := fs\<rparr>)))
      | PhotonSource \<Rightarrow>
          (case py_remove self (PhotonSource_objects w) of
             None \<Rightarrow> Inl ValueError
           | Some cs \<Rightarrow>
               (case py_remove self (Figure_objects w) of
                  None \<Rightarrow> Inl ValueError
                | Some fs \<Rightarrow> Inr (w\<lparr>PhotonSource_objects := cs, Figure_objects := fs\<rparr>))))"

text \<open>\<^verbatim>\<open>Circle.listen\<close>. \<open>mouse\<close> is what \<^verbatim>\<open>pygame.mouse.get_pos()\<close> returns during the
  call. The five \<^verbatim>\<open>if\<close>s of the loop body test five different event types, so for one
  event at most one of them applies.\<close>

fun Circle_listen :: "Point \<Rightarrow> nat \<Rightarrow> event list \<Rightarrow> world \<Rightarrow> error + world" where
  "Circle_listen mouse self [] w = Inr w"
| "Circle_listen mouse self (e # es) w =
     (let s = heap w self
      in case e of
           MOUSEMOTION pos \<Rightarrow>
             Circle_listen mouse self es
               (if activated_movement s then set_obj self (s\<lparr>mid := pos\<rparr>) w else w)
         | MOUSEBUTTONDOWN pos b \<Rightarrow>
             Circle_listen mouse self es
               (if collide s pos \<and> b = 1 then set_obj self (s\<lparr>activated_movement := True\<rparr>) w
                else w)
         | MOUSEBUTTONUP pos b \<Rightarrow>
             Circle_listen mouse self es
               (if activated_movement s \<and> b = 1
                then set_obj self (s\<lparr>activated_movement := False\<rparr>) w else w)
         | MOUSEWHEEL dy \<Rightarrow>
             Circle_listen mouse self es
               (if collide s mouse then set_obj self (s\<lparr>radius := max 5 (radius s + 5 * dy)\<rparr>) w
                else w)
         | KEYDOWN k \<Rightarrow>
             if k = K_r \<and> collide s mouse then unregister self w
             else Circle_listen mouse self es w
         | OTHER \<Rightarrow> Circle_listen mouse self es w)"

text \<open>The loop of \<^verbatim>\<open>PhotonSource.listen\<close>; the flag tells whether the loop left the
  method through its \<^verbatim>\<open>return\<close>.\<close>

fun PhotonSource_events :: "nat \<Rightarrow> event list \<Rightarrow> world \<Rightarrow> world \<times> bool" where
  "PhotonSource_events self [] w = (w, False)"
| "PhotonSource_events self (e # es) w =
     (let s = heap w self
      in case e of
           MOUSEBUTTONDOWN pos b \<Rightarrow>
             PhotonSource_events self es
               (if b = 3 \<and> collide s pos then set_obj self (s\<lparr>enabled := \<not> enabled s\<rparr>) w else w)
         | KEYDOWN k \<Rightarrow>
             if k = K_c then
               PhotonSource_events self es (w\<lparr>list_heap := (list_heap w)(photons_of s := [])\<rparr>)
             else if k = K_r then (w, True)
             else PhotonSource_events self es w
         | _ \<Rightarrow> PhotonSource_events self es w)"

text \<open>\<^verbatim>\<open>PhotonSource.listen\<close>: the loop, then \<^verbatim>\<open>super().listen(events)\<close> unless the loop
  returned.\<close>

definition PhotonSource_listen :: "Point \<Rightarrow> nat \<Rightarrow> event list \<Rightarrow> world \<Rightarrow> error + world" where
  "PhotonSource_listen mouse self events w =
     (case PhotonSource_events self events w of
        (w1, True) \<Rightarrow> Inr w1
      | (w1, False) \<Rightarrow> Circle_listen mouse self events w1)"

text \<open>The call \<^verbatim>\<open>obj.listen(event_list)\<close> of the frame loop: the method of the object's
  own class.\<close>

definition listen :: "Point \<Rightarrow> nat \<Rightarrow> event list \<Rightarrow> world \<Rightarrow> error + world" where
  "listen mouse self events w =
     (case klass (heap w self) of
        Circle \<Rightarrow> Circle_listen mouse self events w
      | PhotonSource \<Rightarrow> PhotonSource_listen mouse self events w)"

text \<open>Two worlds have the same registries; two figures have the same centre, radius and
  drag flag.\<close>

definition same_registries :: "world \<Rightarrow> world \<Rightarrow> bool" where
  "same_registries w w' =
     (Figure_objects w' = Figure_objects w \<and> Circle_objects w' = Circle_objects w
      \<and> PhotonSource_objects w' = PhotonSource_objects w)"

definition same_shape :: "figure \<Rightarrow> figure \<Rightarrow> bool" where
  "same_shape s s' =
     (mid s' = mid s \<and> radius s' = radius s \<and> activated_movement s' = activated_movement s)"

subsection \<open>Concrete scenes\<close>

text \<open>The configuration of the scenario: no jitter, no absorption by chance, a spawn on
  every tick, one ray every 90 degrees, a canvas of 800 by 600.\<close>

definition scenario_cfg :: config where
  "scenario_cfg =
     \<lparr>axis_value = 0, ate_probability = 0, frequency = 1, rays_step = 90, d_w = 800, d_h = 600\<rparr>"

text \<open>A random source whose every draw is one half.\<close>

definition half :: rng where
  "half = (\<lambda>_. 1 / 2)"

definition pt :: "real \<Rightarrow> real \<Rightarrow> Point" where
  "pt a b = \<lparr>px = a, py = b\<rparr>"

text \<open>Two overlapping circles of radius 10 whose rims both pass through \<open>(90, 100)\<close>, and
  a photon one step to the left of that point, heading right.\<close>

definition circle_A :: figure where
  "circle_A = figure_init Circle (pt 100 100) 10"
definition circle_B :: figure where
  "circle_B = figure_init Circle (pt 80 100) 10"
definition photon_89 :: Photon where
  "photon_89 = \<lparr>pid = 0, coord = pt 89 100, angle = 0, n_reflections = 0\<rparr>"

text \<open>A world with the emitter of the scenario, at \<open>(400, 300)\<close> with radius 5, as object 0,
  and the same world with a plain circle at \<open>(100, 100)\<close> with radius 10 as object 1.\<close>

definition emitter_world :: world where
  "emitter_world = snd (new_figure PhotonSource (pt 400 300) 5 (init_world half))"

definition emitter_circle_world :: world where
  "emitter_circle_world = snd (new_figure Circle (pt 100 100) 10 emitter_world)"

text \<open>The value of \<^verbatim>\<open>self.photons\<close> for the figure at address \<open>self\<close>: the contents of the
  list object the attribute refers to.\<close>

definition owned :: "nat \<Rightarrow> world \<Rightarrow> Photon list" where
  "owned self w = list_heap w (photons_of (heap w self))"

text \<open>The photons the emitter of the scenario creates in its first generation, and the
  same photons one step further along their headings.\<close>

definition first_generation :: "Photon list" where
  "first_generation =
     [Photon_init 0 (pt 406 301) 0, Photon_init 1 (pt 400 307) (pi / 2),
      Photon_init 2 (pt 394 301) pi, Photon_init 3 (pt 400 295) (3 * pi / 2)]"

definition first_generation_moved :: "Photon list" where
  "first_generation_moved =
     [Photon_init 0 (pt 407 301) 0, Photon_init 1 (pt 400 308) (pi / 2),
      Photon_init 2 (pt 393 301) pi, Photon_init 3 (pt 400 294) (3 * pi / 2)]"

text \<open>The emitter of the scenario once \<^verbatim>\<open>generate_photons\<close> has bound its attribute \<^verbatim>\<open>photons\<close>.\<close>

definition emitter_1 :: figure where
  "emitter_1 = (figure_init PhotonSource (pt 400 300) 5)\<lparr>photons := Some 0\<rparr>"

text \<open>A world of the scenario in which the emitter's list holds a photon at the right edge
  of the canvas, heading right, and after it a photon at the left edge, heading left.\<close>

definition photon_right_edge :: Photon where
  "photon_right_edge = \<lparr>pid = 0, coord = pt 800 301, angle = 0, n_reflections = 0\<rparr>"

definition photon_left_edge :: Photon where
  "photon_left_edge = \<lparr>pid = 2, coord = pt 0 301, angle = pi, n_reflections = 0\<rparr>"

definition edge_world :: world where
  "edge_world =
     emitter_world
       \<lparr>heap := (heap emitter_world)(0 := emitter_1),
        list_heap := (list_heap emitter_world)(0 := [photon_right_edge, photon_left_edge]),
        next_pid := 4\<rparr>"



text \<open>A circle of radius 10 around \<open>(90, 100)\<close>, so that this point is in its inner zone,
  a circle far from it, and the photon at \<open>(90, 100)\<close> with a given angle and count.\<close>

definition circle_C :: figure where
  "circle_C = figure_init Circle (pt 90 100) 10"

definition circle_far :: figure where
  "circle_far = figure_init Circle (pt 400 300) 5"

definition photon_90 :: "real \<Rightarrow> nat \<Rightarrow> Photon" where
  "photon_90 a k = \<lparr>pid = 0, coord = pt 90 100, angle = a, n_reflections = k\<rparr>"




section \<open>Properties\<close>

subsection \<open>Geometry and the random source\<close>

lemma distance_sq: "(distance a b)\<^sup>2 = (px a - px b)\<^sup>2 + (py a - py b)\<^sup>2"
  by (simp add: distance_def)

lemma distance_eq:
  "0 \<le> r \<Longrightarrow> (px a - px b)\<^sup>2 + (py a - py b)\<^sup>2 = r\<^sup>2 \<Longrightarrow> distance a b = r"
  unfolding distance_def by (simp add: real_sqrt_unique)

lemma distance_le_iff:
  "0 \<le> r \<Longrightarrow> distance a b \<le> r \<longleftrightarrow> (px a - px b)\<^sup>2 + (py a - py b)\<^sup>2 \<le> r\<^sup>2"
  unfolding distance_def by (metis abs_of_nonneg real_sqrt_abs real_sqrt_le_iff)

lemma axis_eq:
  "axis cfg g = (- axis_value cfg + (axis_value cfg - - axis_value cfg) * g 0, \<lambda>n. g (Suc n))"
  by (simp add: axis_def random_uniform_def random_random_def)

lemma axis_scenario_half: "axis scenario_cfg half = (0, half)"
  by (simp add: axis_eq scenario_cfg_def half_def)

lemma dot_self_distance:
  "dot \<lparr>vx = px b - px a, vy = py b - py a\<rparr> \<lparr>vx = px b - px a, vy = py b - py a\<rparr>
     = (distance a b)\<^sup>2"
proof -
  have "dot \<lparr>vx = px b - px a, vy = py b - py a\<rparr> \<lparr>vx = px b - px a, vy = py b - py a\<rparr>
          = (px b - px a)\<^sup>2 + (py b - py a)\<^sup>2"
    by (simp add: dot_def power2_eq_square)
  then show ?thesis
    by (simp add: distance_sq power2_commute [of "px a" "px b"] power2_commute [of "py a" "py b"])
qed

lemma far_normal_ok:
  assumes "1 < distance a b"
  shows "\<not> dot \<lparr>vx = px b - px a, vy = py b - py a\<rparr> \<lparr>vx = px b - px a, vy = py b - py a\<rparr>
             < epsilon"
proof -
  have "1 < (distance a b)\<^sup>2"
    using assms by (simp add: power2_eq_square less_1_mult)
  then show ?thesis
    by (simp add: dot_self_distance epsilon_def)
qed

lemma dot_scale_right: "dot v \<lparr>vx = k * vx n, vy = k * vy n\<rparr> = k * dot v n"
  by (simp add: dot_def algebra_simps)

lemma dot_scale_left: "dot \<lparr>vx = k * vx n, vy = k * vy n\<rparr> w = k * dot n w"
  by (simp add: dot_def algebra_simps)

lemma reflect_scale:
  assumes "k \<noteq> 0"
  shows "reflect_formula v \<lparr>vx = k * vx n, vy = k * vy n\<rparr> = reflect_formula v n"
proof -
  have "2 * (k * dot v n) * (k * c) / (k * (k * dot n n)) = 2 * dot v n * c / dot n n" for c
  proof -
    have "2 * (k * dot v n) * (k * c) = k * (k * (2 * dot v n * c))" by simp
    then show ?thesis using assms by simp
  qed
  then show ?thesis
    by (simp only: reflect_formula_def dot_scale_right dot_scale_left Vector2.select_convs)
qed

lemma compute_photon_Some:
  "compute_photon cfg self p g = Inr (Some q, g1) \<Longrightarrow>
     n_reflections q = n_reflections p \<and> coord q = coord p \<and> pid q = pid p"
  by (auto simp: compute_photon_def Let_def split: if_splits prod.splits sum.splits)

subsection \<open>The interaction of a figure with a photon\<close>

lemma atan2_left: "atan2 0 (- 1) = pi"
  by (simp add: atan2_def)

lemma atan2_right: "atan2 0 1 = 0"
  by (simp add: atan2_def)

text \<open>C1, as the code has it. For a figure of radius at least 2 (the program creates and
  keeps radii of at least 5), \<open>compute_photon\<close> returns \<open>None\<close> (absorbed) exactly when
  the photon is within \<open>radius - 1\<close> of the centre, the boundary \<open>distance = radius - 1\<close>
  included, or the draw is below \<open>ate_probability\<close>. In every other case it returns the
  photon with its angle set to \<open>atan2\<close> of the reflection of the heading vector about the
  vector from the centre to the photon, plus the jitter. With \<open>ate_probability = 0\<close> a
  photon at a distance greater than \<open>radius - 1\<close> is always reflected. This holds for
  every photon, so in particular for one that collides with the figure.\<close>

theorem compute_photon_outcome:
  assumes "2 \<le> radius self"
  shows "compute_photon cfg self p g =
    (if distance (mid self) (coord p) \<le> real_of_int (radius self) - 1 then Inr (None, g)
     else if g 0 < ate_probability cfg then Inr (None, \<lambda>n. g (Suc n))
     else Inr (Some (p\<lparr>angle :=
             atan2 (vy (reflect_formula \<lparr>vx = cos (angle p), vy = sin (angle p)\<rparr>
                          \<lparr>vx = px (coord p) - px (mid self), vy = py (coord p) - py (mid self)\<rparr>))
                   (vx (reflect_formula \<lparr>vx = cos (angle p), vy = sin (angle p)\<rparr>
                          \<lparr>vx = px (coord p) - px (mid self), vy = py (coord p) - py (mid self)\<rparr>))
             + fst (axis cfg (\<lambda>n. g (Suc n)))\<rparr>), snd (axis cfg (\<lambda>n. g (Suc n)))))
   \<and> ((\<exists>g'. compute_photon cfg self p g = Inr (None, g')) \<longleftrightarrow>
        (distance (mid self) (coord p) \<le> real_of_int (radius self) - 1 \<or> g 0 < ate_probability cfg))
   \<and> (ate_probability cfg = 0 \<and> 0 \<le> g 0
        \<and> real_of_int (radius self) - 1 < distance (mid self) (coord p)
        \<longrightarrow> (\<exists>q g'. compute_photon cfg self p g = Inr (Some q, g')))"
proof -
  have main: "compute_photon cfg self p g =
    (if distance (mid self) (coord p) \<le> real_of_int (radius self) - 1 then Inr (None, g)
     else if g 0 < ate_probability cfg then Inr (None, \<lambda>n. g (Suc n))
     else Inr (Some (p\<lparr>angle :=
             atan2 (vy (reflect_formula \<lparr>vx = cos (angle p), vy = sin (angle p)\<rparr>
                          \<lparr>vx = px (coord p) - px (mid self), vy = py (coord p) - py (mid self)\<rparr>))
                   (vx (reflect_formula \<lparr>vx = cos (angle p), vy = sin (angle p)\<rparr>
                          \<lparr>vx = px (coord p) - px (mid self), vy = py (coord p) - py (mid self)\<rparr>))
             + fst (axis cfg (\<lambda>n. g (Suc n)))\<rparr>), snd (axis cfg (\<lambda>n. g (Suc n)))))"
  proof (cases "distance (mid self) (coord p) \<le> real_of_int (radius self) - 1")
    case True
    then show ?thesis by (simp add: compute_photon_def)
  next
    case False
    then have "1 < distance (mid self) (coord p)" using assms by linarith
    from far_normal_ok [OF this] False show ?thesis
      by (simp add: compute_photon_def random_random_def reflect_def Let_def split: prod.splits)
  qed
  have iff: "(\<exists>g'. compute_photon cfg self p g = Inr (None, g')) \<longleftrightarrow>
        (distance (mid self) (coord p) \<le> real_of_int (radius self) - 1 \<or> g 0 < ate_probability cfg)"
    by (subst main) simp
  have zero: "ate_probability cfg = 0 \<and> 0 \<le> g 0
        \<and> real_of_int (radius self) - 1 < distance (mid self) (coord p)
        \<longrightarrow> (\<exists>q g'. compute_photon cfg self p g = Inr (Some q, g'))"
    by (subst main) simp
  from main iff zero show ?thesis by blast
qed

theorem compute_photon_outcome_witness:
  "2 \<le> radius (figure_init Circle (pt 0 0) 5)
   \<and> compute_photon scenario_cfg (figure_init Circle (pt 0 0) 5)
        \<lparr>pid = 0, coord = pt 5 0, angle = 0, n_reflections = 0\<rparr> half
      = Inr (Some \<lparr>pid = 0, coord = pt 5 0, angle = pi, n_reflections = 0\<rparr>, half)
   \<and> compute_photon scenario_cfg (figure_init Circle (pt 0 0) 5)
        \<lparr>pid = 0, coord = pt 3 0, angle = 0, n_reflections = 0\<rparr> half = Inr (None, half)"
proof -
  have r: "2 \<le> radius (figure_init Circle (pt 0 0) 5)"
    by (simp add: figure_init_def)
  have d5: "distance (pt 0 0) (pt 5 0) = 5"
    by (rule distance_eq) (simp_all add: pt_def)
  have d3: "distance (pt 0 0) (pt 3 0) = 3"
    by (rule distance_eq) (simp_all add: pt_def)
  have refl: "reflect_formula \<lparr>vx = 1, vy = 0\<rparr> \<lparr>vx = 5, vy = 0\<rparr> = \<lparr>vx = - 1, vy = 0\<rparr>"
    by (simp add: reflect_formula_def dot_def)
  have h: "(\<lambda>n. half (Suc n)) = half"
    by (simp add: half_def)
  have a: "compute_photon scenario_cfg (figure_init Circle (pt 0 0) 5)
        \<lparr>pid = 0, coord = pt 5 0, angle = 0, n_reflections = 0\<rparr> half
      = Inr (Some \<lparr>pid = 0, coord = pt 5 0, angle = pi, n_reflections = 0\<rparr>, half)"
    using compute_photon_outcome [OF r, of scenario_cfg
        "\<lparr>pid = 0, coord = pt 5 0, angle = 0, n_reflections = 0\<rparr>" half]
    by (simp add: figure_init_def d5 h axis_scenario_half atan2_left)
       (simp add: pt_def refl atan2_left scenario_cfg_def half_def)
  have b: "compute_photon scenario_cfg (figure_init Circle (pt 0 0) 5)
        \<lparr>pid = 0, coord = pt 3 0, angle = 0, n_reflections = 0\<rparr> half = Inr (None, half)"
    using compute_photon_outcome [OF r, of scenario_cfg
        "\<lparr>pid = 0, coord = pt 3 0, angle = 0, n_reflections = 0\<rparr>" half]
    by (simp add: figure_init_def d3)
  from r a b show ?thesis by blast
qed

text \<open>The claim C1 as written lets the photon at distance exactly \<open>radius - 1\<close> be
  reflected when the draw is not below the probability. Here the figure has radius 5, the
  photon is at distance 4, which is not strictly within \<open>radius - 1\<close>, the probability is
  0, and the photon is absorbed.\<close>

theorem absorbed_on_inner_boundary:
  "collide (figure_init Circle (pt 0 0) 5) (pt 4 0)
   \<and> \<not> distance (mid (figure_init Circle (pt 0 0) 5)) (pt 4 0)
         < real_of_int (radius (figure_init Circle (pt 0 0) 5)) - 1
   \<and> \<not> half 0 < ate_probability scenario_cfg
   \<and> compute_photon scenario_cfg (figure_init Circle (pt 0 0) 5)
        \<lparr>pid = 0, coord = pt 4 0, angle = 0, n_reflections = 0\<rparr> half = Inr (None, half)"
proof -
  have d4: "distance (pt 0 0) (pt 4 0) = 4"
    by (rule distance_eq) (simp_all add: pt_def)
  show ?thesis
    by (simp add: collide_def compute_photon_def figure_init_def d4 scenario_cfg_def half_def)
qed

subsection \<open>The reflection\<close>

lemma dot_self_pos: "dot n n \<noteq> 0 \<Longrightarrow> 0 < dot n n"
proof -
  assume "dot n n \<noteq> 0"
  moreover have "0 \<le> dot n n" by (simp add: dot_def)
  ultimately show ?thesis by simp
qed

lemma reflect_unit_normal:
  assumes "dot n n \<noteq> 0"
  shows "reflect_formula v (unit_normal n) = reflect_formula v n"
proof -
  have "0 < dot n n" using assms by (rule dot_self_pos)
  then have k: "1 / sqrt (dot n n) \<noteq> 0" by simp
  have "unit_normal n = \<lparr>vx = (1 / sqrt (dot n n)) * vx n, vy = (1 / sqrt (dot n n)) * vy n\<rparr>"
    by (simp add: unit_normal_def)
  then show ?thesis using reflect_scale [OF k] by simp
qed

lemma compute_photon_angle:
  assumes "compute_photon cfg self p g = Inr (Some q, g')"
  shows "angle q =
       atan2 (vy (reflect_formula \<lparr>vx = cos (angle p), vy = sin (angle p)\<rparr>
                    \<lparr>vx = px (coord p) - px (mid self), vy = py (coord p) - py (mid self)\<rparr>))
             (vx (reflect_formula \<lparr>vx = cos (angle p), vy = sin (angle p)\<rparr>
                    \<lparr>vx = px (coord p) - px (mid self), vy = py (coord p) - py (mid self)\<rparr>))
       + fst (axis cfg (\<lambda>k. g (Suc k)))"
  using assms
  by (auto simp: compute_photon_def random_random_def reflect_def Let_def
           split: if_splits prod.splits)

lemma sqrt_25: "sqrt 25 = 5"
  by (rule real_sqrt_unique) simp_all

lemma reflect_3_4: "reflect_formula \<lparr>vx = 1, vy = 0\<rparr> \<lparr>vx = 3, vy = 4\<rparr> = \<lparr>vx = 7 / 25, vy = - (24 / 25)\<rparr>"
  by (simp add: reflect_formula_def dot_def)

lemma reflect_6_8: "reflect_formula \<lparr>vx = 1, vy = 0\<rparr> \<lparr>vx = 6, vy = 8\<rparr> = \<lparr>vx = 7 / 25, vy = - (24 / 25)\<rparr>"
  by (simp add: reflect_formula_def dot_def)

lemma unit_normal_3_4: "unit_normal \<lparr>vx = 3, vy = 4\<rparr> = \<lparr>vx = 3 / 5, vy = 4 / 5\<rparr>"
  by (simp add: unit_normal_def dot_def sqrt_25)

lemma reflect_unit_3_4:
  "reflect_formula \<lparr>vx = 1, vy = 0\<rparr> \<lparr>vx = 3 / 5, vy = 4 / 5\<rparr> = \<lparr>vx = 7 / 25, vy = - (24 / 25)\<rparr>"
  by (simp add: reflect_formula_def dot_def)

lemma half_tail: "(\<lambda>n. half (Suc n)) = half"
  by (simp add: half_def)

lemma bounce_radius_5:
  "compute_photon scenario_cfg (figure_init Circle (pt 0 0) 5)
      \<lparr>pid = 0, coord = pt 3 4, angle = 0, n_reflections = 0\<rparr> half
    = Inr (Some \<lparr>pid = 0, coord = pt 3 4, angle = atan2 (- (24 / 25)) (7 / 25), n_reflections = 0\<rparr>, half)"
proof -
  have d: "distance (pt 0 0) (pt 3 4) = 5"
    by (rule distance_eq) (simp_all add: pt_def)
  have e: "\<not> dot \<lparr>vx = 3, vy = 4\<rparr> \<lparr>vx = 3, vy = 4\<rparr> < epsilon"
    by (simp add: dot_def epsilon_def)
  show ?thesis
    by (simp add: compute_photon_def figure_init_def d random_random_def half_tail
          axis_scenario_half reflect_def)
       (simp add: pt_def e reflect_3_4 axis_eq scenario_cfg_def half_def)
qed

lemma bounce_radius_10:
  "compute_photon scenario_cfg (figure_init Circle (pt 0 0) 10)
      \<lparr>pid = 0, coord = pt 6 8, angle = 0, n_reflections = 0\<rparr> half
    = Inr (Some \<lparr>pid = 0, coord = pt 6 8, angle = atan2 (- (24 / 25)) (7 / 25), n_reflections = 0\<rparr>, half)"
proof -
  have d: "distance (pt 0 0) (pt 6 8) = 10"
    by (rule distance_eq) (simp_all add: pt_def)
  have e: "\<not> dot \<lparr>vx = 6, vy = 8\<rparr> \<lparr>vx = 6, vy = 8\<rparr> < epsilon"
    by (simp add: dot_def epsilon_def)
  show ?thesis
    by (simp add: compute_photon_def figure_init_def d random_random_def half_tail
          axis_scenario_half reflect_def)
       (simp add: pt_def e reflect_6_8 axis_eq scenario_cfg_def half_def)
qed

text \<open>C7, as the code has it. On a surviving collision the new heading is \<open>atan2\<close> of
  \<open>v' = v - 2(v\<cdot>n)n/|n|\<^sup>2\<close> plus the jitter, where \<open>v\<close> is the unit heading vector and \<open>n\<close>
  the raw vector from the figure's centre to the photon. Since the formula divides by
  \<open>|n|\<^sup>2\<close>, its value is the same for the normal scaled to unit length and for any other
  non-zero multiple of \<open>n\<close>: the length of the normal, and so the radius of the figure,
  does not enter the reflected direction.\<close>

theorem reflection_ignores_normal_length:
  "(compute_photon cfg self p g = Inr (Some q, g') \<longrightarrow>
      angle q =
        atan2 (vy (reflect_formula \<lparr>vx = cos (angle p), vy = sin (angle p)\<rparr>
                     \<lparr>vx = px (coord p) - px (mid self), vy = py (coord p) - py (mid self)\<rparr>))
              (vx (reflect_formula \<lparr>vx = cos (angle p), vy = sin (angle p)\<rparr>
                     \<lparr>vx = px (coord p) - px (mid self), vy = py (coord p) - py (mid self)\<rparr>))
        + fst (axis cfg (\<lambda>k. g (Suc k))))
   \<and> reflect_formula v n =
        \<lparr>vx = vx v - 2 * (vx v * vx n + vy v * vy n) * vx n / (vx n * vx n + vy n * vy n),
         vy = vy v - 2 * (vx v * vx n + vy v * vy n) * vy n / (vx n * vx n + vy n * vy n)\<rparr>
   \<and> (dot n n \<noteq> 0 \<longrightarrow> reflect_formula v (unit_normal n) = reflect_formula v n)
   \<and> (k \<noteq> 0 \<longrightarrow> reflect_formula v \<lparr>vx = k * vx n, vy = k * vy n\<rparr> = reflect_formula v n)"
proof -
  have "reflect_formula v n =
        \<lparr>vx = vx v - 2 * (vx v * vx n + vy v * vy n) * vx n / (vx n * vx n + vy n * vy n),
         vy = vy v - 2 * (vx v * vx n + vy v * vy n) * vy n / (vx n * vx n + vy n * vy n)\<rparr>"
    by (simp add: reflect_formula_def dot_def)
  then show ?thesis
    using compute_photon_angle [of cfg self p g q g'] reflect_unit_normal [of n v]
      reflect_scale [of k v n]
    by blast
qed

theorem reflection_ignores_normal_length_witness:
  "compute_photon scenario_cfg (figure_init Circle (pt 0 0) 5)
      \<lparr>pid = 0, coord = pt 3 4, angle = 0, n_reflections = 0\<rparr> half
    = Inr (Some \<lparr>pid = 0, coord = pt 3 4, angle = atan2 (- (24 / 25)) (7 / 25), n_reflections = 0\<rparr>, half)
   \<and> atan2 (- (24 / 25)) (7 / 25) =
       atan2 (vy (reflect_formula \<lparr>vx = 1, vy = 0\<rparr> \<lparr>vx = 3, vy = 4\<rparr>))
             (vx (reflect_formula \<lparr>vx = 1, vy = 0\<rparr> \<lparr>vx = 3, vy = 4\<rparr>)) + 0
   \<and> dot \<lparr>vx = 3, vy = 4\<rparr> \<lparr>vx = 3, vy = 4\<rparr> \<noteq> 0
   \<and> reflect_formula \<lparr>vx = 1, vy = 0\<rparr> (unit_normal \<lparr>vx = 3, vy = 4\<rparr>)
       = reflect_formula \<lparr>vx = 1, vy = 0\<rparr> \<lparr>vx = 3, vy = 4\<rparr>
   \<and> (2 :: real) \<noteq> 0
   \<and> reflect_formula \<lparr>vx = 1, vy = 0\<rparr> \<lparr>vx = 6, vy = 8\<rparr>
       = reflect_formula \<lparr>vx = 1, vy = 0\<rparr> \<lparr>vx = 3, vy = 4\<rparr>"
  using reflection_ignores_normal_length [of scenario_cfg "figure_init Circle (pt 0 0) 5"
      "\<lparr>pid = 0, coord = pt 3 4, angle = 0, n_reflections = 0\<rparr>" half
      "\<lparr>pid = 0, coord = pt 3 4, angle = atan2 (- (24 / 25)) (7 / 25), n_reflections = 0\<rparr>" half
      "\<lparr>vx = 1, vy = 0\<rparr>" "\<lparr>vx = 3, vy = 4\<rparr>" 2]
    bounce_radius_5
  by (simp add: dot_def reflect_3_4)

text \<open>The second half of C7 as written says that the raw normal gives another direction
  than the unit normal. For the heading \<open>(1, 0)\<close> and the raw normal \<open>(3, 4)\<close> both give
  \<open>(7/25, -24/25)\<close>, and a figure of radius 5 hit at \<open>(3, 4)\<close> and one of radius 10 hit
  at \<open>(6, 8)\<close> send the photon on with the same angle.\<close>

theorem same_bounce_for_raw_and_unit_normal:
  "reflect_formula \<lparr>vx = 1, vy = 0\<rparr> \<lparr>vx = 3, vy = 4\<rparr> = \<lparr>vx = 7 / 25, vy = - (24 / 25)\<rparr>
   \<and> unit_normal \<lparr>vx = 3, vy = 4\<rparr> = \<lparr>vx = 3 / 5, vy = 4 / 5\<rparr>
   \<and> reflect_formula \<lparr>vx = 1, vy = 0\<rparr> (unit_normal \<lparr>vx = 3, vy = 4\<rparr>)
        = \<lparr>vx = 7 / 25, vy = - (24 / 25)\<rparr>
   \<and> compute_photon scenario_cfg (figure_init Circle (pt 0 0) 5)
        \<lparr>pid = 0, coord = pt 3 4, angle = 0, n_reflections = 0\<rparr> half
      = Inr (Some \<lparr>pid = 0, coord = pt 3 4, angle = atan2 (- (24 / 25)) (7 / 25),
                    n_reflections = 0\<rparr>, half)
   \<and> compute_photon scenario_cfg (figure_init Circle (pt 0 0) 10)
        \<lparr>pid = 0, coord = pt 6 8, angle = 0, n_reflections = 0\<rparr> half
      = Inr (Some \<lparr>pid = 0, coord = pt 6 8, angle = atan2 (- (24 / 25)) (7 / 25),
                    n_reflections = 0\<rparr>, half)"
  by (simp only: reflect_3_4 unit_normal_3_4 reflect_unit_3_4 bounce_radius_5 bounce_radius_10 simp_thms)

subsection \<open>The collision loop of a photon\<close>

lemma length_colors: "length colors = 8"
  by (simp add: colors_def)

lemma collide_loop_keeps:
  "collide_loop cfg figs p g = Inr (p', r, g') \<Longrightarrow>
     coord p' = coord p \<and> pid p' = pid p \<and> n_reflections p \<le> n_reflections p'"
proof (induction figs arbitrary: p g)
  case Nil
  then show ?case by simp
next
  case (Cons fig figs)
  show ?case
  proof (cases "collide fig (coord p)")
    case False
    with Cons show ?thesis by simp
  next
    case True
    show ?thesis
    proof (cases "compute_photon cfg fig p g")
      case (Inl e)
      with Cons.prems True show ?thesis by simp
    next
      case (Inr res)
      obtain oq g1 where res: "res = (oq, g1)" by (cases res)
      show ?thesis
      proof (cases oq)
        case None
        with Cons.prems True Inr res show ?thesis by simp
      next
        case (Some q)
        from Inr res Some have cp: "compute_photon cfg fig p g = Inr (Some q, g1)" by simp
        note k = compute_photon_Some [OF cp]
        show ?thesis
        proof (cases "length colors \<le> n_reflections q + 1")
          case True
          with Cons.prems \<open>collide fig (coord p)\<close> cp k show ?thesis by (auto simp: Let_def)
        next
          case False
          with Cons.prems \<open>collide fig (coord p)\<close> cp
          have "collide_loop cfg figs (q\<lparr>n_reflections := n_reflections q + 1\<rparr>) g1 = Inr (p', r, g')"
            by (simp add: Let_def)
          from Cons.IH [OF this] k show ?thesis by simp
        qed
      qed
    qed
  qed
qed

lemma collide_loop_count:
  "collide_loop cfg figs p g = Inr (p', None, g') \<Longrightarrow>
     n_reflections p' = n_reflections p + length (filter (\<lambda>f. collide f (coord p)) figs)"
proof (induction figs arbitrary: p g)
  case Nil
  then show ?case by simp
next
  case (Cons fig figs)
  show ?case
  proof (cases "collide fig (coord p)")
    case False
    with Cons show ?thesis by simp
  next
    case True
    show ?thesis
    proof (cases "compute_photon cfg fig p g")
      case (Inl e)
      with Cons.prems True show ?thesis by simp
    next
      case (Inr res)
      obtain oq g1 where res: "res = (oq, g1)" by (cases res)
      show ?thesis
      proof (cases oq)
        case None
        with Cons.prems True Inr res show ?thesis by simp
      next
        case (Some q)
        from Inr res Some have cp: "compute_photon cfg fig p g = Inr (Some q, g1)" by simp
        note k = compute_photon_Some [OF cp]
        show ?thesis
        proof (cases "length colors \<le> n_reflections q + 1")
          case True
          with Cons.prems \<open>collide fig (coord p)\<close> cp show ?thesis by (simp add: Let_def)
        next
          case False
          with Cons.prems \<open>collide fig (coord p)\<close> cp
          have "collide_loop cfg figs (q\<lparr>n_reflections := n_reflections q + 1\<rparr>) g1 = Inr (p', None, g')"
            by (simp add: Let_def)
          from Cons.IH [OF this] k \<open>collide fig (coord p)\<close> show ?thesis by simp
        qed
      qed
    qed
  qed
qed

lemma collide_loop_bound:
  "collide_loop cfg figs p g = Inr (p', None, g') \<Longrightarrow> n_reflections p < length colors \<Longrightarrow>
     n_reflections p' < length colors"
proof (induction figs arbitrary: p g)
  case Nil
  then show ?case by simp
next
  case (Cons fig figs)
  show ?case
  proof (cases "collide fig (coord p)")
    case False
    with Cons show ?thesis by simp
  next
    case True
    show ?thesis
    proof (cases "compute_photon cfg fig p g")
      case (Inl e)
      with Cons.prems True show ?thesis by simp
    next
      case (Inr res)
      obtain oq g1 where res: "res = (oq, g1)" by (cases res)
      show ?thesis
      proof (cases oq)
        case None
        with Cons.prems True Inr res show ?thesis by simp
      next
        case (Some q)
        from Inr res Some have cp: "compute_photon cfg fig p g = Inr (Some q, g1)" by simp
        show ?thesis
        proof (cases "length colors \<le> n_reflections q + 1")
          case True
          with Cons.prems(1) \<open>collide fig (coord p)\<close> cp show ?thesis by (simp add: Let_def)
        next
          case False
          with Cons.prems(1) \<open>collide fig (coord p)\<close> cp
          have "collide_loop cfg figs (q\<lparr>n_reflections := n_reflections q + 1\<rparr>) g1 = Inr (p', None, g')"
            by (simp add: Let_def)
          from Cons.IH [OF this] False show ?thesis by simp
        qed
      qed
    qed
  qed
qed

lemma collide_loop_no_IndexError: "collide_loop cfg figs p g \<noteq> Inl IndexError"
proof (induction figs arbitrary: p g)
  case Nil
  show ?case by simp
next
  case (Cons fig figs)
  have "compute_photon cfg fig p g \<noteq> Inl IndexError"
    by (auto simp: compute_photon_def reflect_def Let_def split: prod.splits)
  with Cons show ?case
    by (auto simp: Let_def split: sum.splits option.splits prod.splits)
qed

lemma collide_loop_filter:
  "collide_loop cfg figs p g = collide_loop cfg (filter (\<lambda>f. collide f (coord p)) figs) p g"
proof (induction figs arbitrary: p g)
  case Nil
  show ?case by simp
next
  case (Cons fig figs)
  show ?case
  proof (cases "collide fig (coord p)")
    case False
    with Cons show ?thesis by simp
  next
    case True
    have "collide_loop cfg figs (q\<lparr>n_reflections := n_reflections q + 1\<rparr>) g1 =
          collide_loop cfg (filter (\<lambda>f. collide f (coord p)) figs) (q\<lparr>n_reflections := n_reflections q + 1\<rparr>) g1"
      if "compute_photon cfg fig p g = Inr (Some q, g1)" for q g1
      using Cons.IH [of "q\<lparr>n_reflections := n_reflections q + 1\<rparr>" g1] compute_photon_Some [OF that]
      by simp
    with True show ?thesis
      by (auto simp: Let_def split: sum.splits option.splits prod.splits)
  qed
qed

lemma blit_alive:
  assumes "Photon_blit cfg figs p g = Inr (p', None, g')"
  shows "\<exists>p1 g2. collide_loop cfg figs p1 g2 = Inr (p', None, g') \<and> n_reflections p1 = n_reflections p
           \<and> pid p1 = pid p \<and> n_reflections p' < length colors"
  using assms
  by (auto simp: Photon_blit_def Let_def split: prod.splits if_splits sum.splits option.splits)

lemma blit_result:
  assumes "Photon_blit cfg figs p g = Inr (p', r, g')"
  shows "n_reflections p \<le> n_reflections p' \<and> pid p' = pid p"
  using assms
  by (auto simp: Photon_blit_def Let_def split: prod.splits if_splits sum.splits option.splits
      dest!: collide_loop_keeps)

subsection \<open>One advance of a photon\<close>

lemma collide_A_90: "collide circle_A (pt 90 100)"
proof -
  have "distance (pt 100 100) (pt 90 100) = 10"
    by (rule distance_eq) (simp_all add: pt_def)
  then show ?thesis by (simp add: collide_def circle_A_def figure_init_def)
qed

lemma collide_B_90: "collide circle_B (pt 90 100)"
proof -
  have "distance (pt 80 100) (pt 90 100) = 10"
    by (rule distance_eq) (simp_all add: pt_def)
  then show ?thesis by (simp add: collide_def circle_B_def figure_init_def)
qed

lemma bounce_A:
  "compute_photon scenario_cfg circle_A \<lparr>pid = 0, coord = pt 90 100, angle = 0, n_reflections = k\<rparr> half
     = Inr (Some \<lparr>pid = 0, coord = pt 90 100, angle = pi, n_reflections = k\<rparr>, half)"
proof -
  have d: "distance (pt 100 100) (pt 90 100) = 10"
    by (rule distance_eq) (simp_all add: pt_def)
  have e: "\<not> dot \<lparr>vx = - 10, vy = 0\<rparr> \<lparr>vx = - 10, vy = 0\<rparr> < epsilon"
    by (simp add: dot_def epsilon_def)
  have r: "reflect_formula \<lparr>vx = 1, vy = 0\<rparr> \<lparr>vx = - 10, vy = 0\<rparr> = \<lparr>vx = - 1, vy = 0\<rparr>"
    by (simp add: reflect_formula_def dot_def)
  show ?thesis
    by (simp add: compute_photon_def circle_A_def figure_init_def d random_random_def reflect_def)
       (simp add: pt_def e r axis_eq scenario_cfg_def half_def atan2_left)
qed

lemma bounce_B:
  "compute_photon scenario_cfg circle_B \<lparr>pid = 0, coord = pt 90 100, angle = pi, n_reflections = k\<rparr> half
     = Inr (Some \<lparr>pid = 0, coord = pt 90 100, angle = 0, n_reflections = k\<rparr>, half)"
proof -
  have d: "distance (pt 80 100) (pt 90 100) = 10"
    by (rule distance_eq) (simp_all add: pt_def)
  have e: "\<not> dot \<lparr>vx = 10, vy = 0\<rparr> \<lparr>vx = 10, vy = 0\<rparr> < epsilon"
    by (simp add: dot_def epsilon_def)
  have r: "reflect_formula \<lparr>vx = - 1, vy = 0\<rparr> \<lparr>vx = 10, vy = 0\<rparr> = \<lparr>vx = 1, vy = 0\<rparr>"
    by (simp add: reflect_formula_def dot_def)
  show ?thesis
    by (simp add: compute_photon_def circle_B_def figure_init_def d random_random_def reflect_def)
       (simp add: pt_def e r axis_eq scenario_cfg_def half_def atan2_right)
qed

lemma advance_89:
  "Photon_blit scenario_cfg figs photon_89 half =
     (case collide_loop scenario_cfg figs \<lparr>pid = 0, coord = pt 90 100, angle = 0, n_reflections = 0\<rparr> half of
        Inl e \<Rightarrow> Inl e
      | Inr (p2, Some r, g3) \<Rightarrow> Inr (p2, Some r, g3)
      | Inr (p2, None, g3) \<Rightarrow>
          if n_reflections p2 < length colors then Inr (p2, None, g3) else Inl IndexError)"
  by (simp add: Photon_blit_def axis_scenario_half photon_89_def pt_def)
     (simp add: scenario_cfg_def)

lemma blit_one_circle:
  "Photon_blit scenario_cfg [circle_A] photon_89 half
     = Inr (\<lparr>pid = 0, coord = pt 90 100, angle = pi, n_reflections = 1\<rparr>, None, half)"
  by (simp add: advance_89 collide_A_90 bounce_A length_colors Let_def)

lemma blit_two_circles:
  "Photon_blit scenario_cfg [circle_A, circle_B] photon_89 half
     = Inr (\<lparr>pid = 0, coord = pt 90 100, angle = 0, n_reflections = 2\<rparr>, None, half)"
  by (simp add: advance_89 collide_A_90 collide_B_90 bounce_A bounce_B length_colors Let_def)

text \<open>C5. A new photon has reflection count 0. On a collision the photon survives
  (\<open>compute_photon\<close> returns it), the count grows by exactly one, and the photon is
  destroyed by that collision exactly when the new count exceeds 7, that is when it
  reaches the length 8 of the palette. Over a whole advance the count never decreases, a
  photon that survives the advance has a count that is a valid index into the palette,
  and painting never fails with an IndexError for a photon whose count was below 8.\<close>

theorem reflection_count_bounded:
  "n_reflections (Photon_init i c a) = 0
   \<and> length colors = 8
   \<and> (collide fig (coord p0) \<and> compute_photon cfg fig p0 g0 = Inr (Some q, g1) \<longrightarrow>
        collide_loop cfg (fig # rest) p0 g0 =
          (if 7 < n_reflections p0 + 1
           then Inr (q\<lparr>n_reflections := n_reflections p0 + 1\<rparr>, Some (- 1), g1)
           else collide_loop cfg rest (q\<lparr>n_reflections := n_reflections p0 + 1\<rparr>) g1))
   \<and> (Photon_blit cfg figs p g = Inr (p', r, g') \<longrightarrow> n_reflections p \<le> n_reflections p')
   \<and> (Photon_blit cfg figs p g = Inr (p', None, g') \<longrightarrow> n_reflections p' < length colors)
   \<and> (n_reflections p < 8 \<longrightarrow> Photon_blit cfg figs p g \<noteq> Inl IndexError)"
proof -
  have a: "n_reflections (Photon_init i c a) = 0" by (simp add: Photon_init_def)
  have b: "collide_loop cfg (fig # rest) p0 g0 =
          (if 7 < n_reflections p0 + 1
           then Inr (q\<lparr>n_reflections := n_reflections p0 + 1\<rparr>, Some (- 1), g1)
           else collide_loop cfg rest (q\<lparr>n_reflections := n_reflections p0 + 1\<rparr>) g1)"
    if "collide fig (coord p0)" "compute_photon cfg fig p0 g0 = Inr (Some q, g1)"
    using that compute_photon_Some [OF that(2)] by (auto simp: Let_def length_colors)
  have c: "n_reflections p \<le> n_reflections p'" if "Photon_blit cfg figs p g = Inr (p', r, g')"
    using blit_result [OF that] by simp
  have d: "n_reflections p' < length colors" if "Photon_blit cfg figs p g = Inr (p', None, g')"
    using blit_alive [OF that] by blast
  have e: "Photon_blit cfg figs p g \<noteq> Inl IndexError" if "n_reflections p < 8"
  proof
    assume ie: "Photon_blit cfg figs p g = Inl IndexError"
    define p1 where "p1 = p\<lparr>coord := \<lparr>px = px (coord p) + cos (angle p) + fst (axis cfg g) / 2,
          py = py (coord p) + sin (angle p) + fst (axis cfg (snd (axis cfg g))) / 2\<rparr>\<rparr>"
    define g2 where "g2 = snd (axis cfg (snd (axis cfg g)))"
    from ie have "\<exists>p2 g3. collide_loop cfg figs p1 g2 = Inr (p2, None, g3) \<and> \<not> n_reflections p2 < length colors"
      using collide_loop_no_IndexError [of cfg figs p1 g2]
      by (auto simp: Photon_blit_def Let_def p1_def g2_def split: prod.splits if_splits sum.splits option.splits)
    then obtain p2 g3 where l: "collide_loop cfg figs p1 g2 = Inr (p2, None, g3)"
      and n: "\<not> n_reflections p2 < length colors" by blast
    have "n_reflections p1 < length colors" using that by (simp add: p1_def length_colors)
    from collide_loop_bound [OF l this] n show False by simp
  qed
  from a b c d e length_colors show ?thesis by blast
qed

theorem reflection_count_bounded_witness:
  "collide circle_A (coord \<lparr>pid = 0, coord = pt 90 100, angle = 0, n_reflections = 0\<rparr>)
   \<and> compute_photon scenario_cfg circle_A \<lparr>pid = 0, coord = pt 90 100, angle = 0, n_reflections = 0\<rparr> half
       = Inr (Some \<lparr>pid = 0, coord = pt 90 100, angle = pi, n_reflections = 0\<rparr>, half)
   \<and> collide_loop scenario_cfg [circle_A, circle_B] \<lparr>pid = 0, coord = pt 90 100, angle = 0, n_reflections = 0\<rparr> half
       = collide_loop scenario_cfg [circle_B] \<lparr>pid = 0, coord = pt 90 100, angle = pi, n_reflections = 1\<rparr> half
   \<and> Photon_blit scenario_cfg [circle_A, circle_B] photon_89 half
       = Inr (\<lparr>pid = 0, coord = pt 90 100, angle = 0, n_reflections = 2\<rparr>, None, half)
   \<and> n_reflections photon_89 \<le> 2 \<and> (2::nat) < length colors \<and> n_reflections photon_89 < 8
   \<and> Photon_blit scenario_cfg [circle_A, circle_B] photon_89 half \<noteq> Inl IndexError"
  using reflection_count_bounded [where fig = circle_A
      and ?p0.0 = "\<lparr>pid = 0, coord = pt 90 100, angle = 0, n_reflections = 0\<rparr>"
      and cfg = scenario_cfg and ?g0.0 = half
      and q = "\<lparr>pid = 0, coord = pt 90 100, angle = pi, n_reflections = 0\<rparr>" and ?g1.0 = half
      and rest = "[circle_B]" and figs = "[circle_A, circle_B]" and p = photon_89 and g = half
      and p' = "\<lparr>pid = 0, coord = pt 90 100, angle = 0, n_reflections = 2\<rparr>"
      and r = None and g' = half]
    collide_A_90 bounce_A [of 0] blit_two_circles
  by (simp add: photon_89_def length_colors del: collide_loop.simps)

subsection \<open>Input handling\<close>

lemma same_registries_refl: "same_registries w w"
  by (simp add: same_registries_def)

lemma Circle_listen_prefix:
  "KEYDOWN K_r \<notin> set pre \<Longrightarrow>
     \<exists>w1. Circle_listen mouse self pre w = Inr w1 \<and> same_registries w w1
          \<and> klass (heap w1 self) = klass (heap w self)
          \<and> list_heap w1 = list_heap w
          \<and> Circle_listen mouse self (pre @ es) w = Circle_listen mouse self es w1"
proof (induction pre arbitrary: w)
  case Nil
  show ?case by (simp add: same_registries_refl)
next
  case (Cons e pre)
  then have no: "KEYDOWN K_r \<notin> set pre" and e: "e \<noteq> KEYDOWN K_r" by auto
  define w0 where "w0 =
    (case e of
       MOUSEMOTION pos \<Rightarrow>
         (if activated_movement (heap w self) then set_obj self ((heap w self)\<lparr>mid := pos\<rparr>) w else w)
     | MOUSEBUTTONDOWN pos b \<Rightarrow>
         (if collide (heap w self) pos \<and> b = 1
          then set_obj self ((heap w self)\<lparr>activated_movement := True\<rparr>) w else w)
     | MOUSEBUTTONUP pos b \<Rightarrow>
         (if activated_movement (heap w self) \<and> b = 1
          then set_obj self ((heap w self)\<lparr>activated_movement := False\<rparr>) w else w)
     | MOUSEWHEEL dy \<Rightarrow>
         (if collide (heap w self) mouse
          then set_obj self ((heap w self)\<lparr>radius := max 5 (radius (heap w self) + 5 * dy)\<rparr>) w else w)
     | KEYDOWN k \<Rightarrow> w
     | OTHER \<Rightarrow> w)"
  have step: "Circle_listen mouse self (e # rest) w = Circle_listen mouse self rest w0" for rest
    using e by (cases e) (auto simp: w0_def Let_def)
  have keep: "same_registries w w0 \<and> klass (heap w0 self) = klass (heap w self) \<and> list_heap w0 = list_heap w"
    by (cases e) (auto simp: w0_def same_registries_def set_obj_def)
  from Cons.IH [OF no, of w0] obtain w1 where
    w1: "Circle_listen mouse self pre w0 = Inr w1" "same_registries w0 w1"
      "klass (heap w1 self) = klass (heap w0 self)" "list_heap w1 = list_heap w0"
      "Circle_listen mouse self (pre @ es) w0 = Circle_listen mouse self es w1"
    by blast
  from w1 keep step [of pre] step [of "pre @ es"] show ?case
    by (auto simp: same_registries_def)
qed

lemma PhotonSource_events_keeps:
  "PhotonSource_events self es w = (w', b) \<Longrightarrow>
     same_registries w w' \<and> same_shape (heap w self) (heap w' self)
     \<and> klass (heap w' self) = klass (heap w self)"
proof (induction es arbitrary: w)
  case Nil
  then show ?case by (auto simp: same_registries_def same_shape_def)
next
  case (Cons e es)
  show ?case
  proof (cases e)
    case (MOUSEBUTTONDOWN pos bt)
    with Cons.prems have
      "PhotonSource_events self es
         (if bt = 3 \<and> collide (heap w self) pos
          then set_obj self ((heap w self)\<lparr>enabled := \<not> enabled (heap w self)\<rparr>) w else w) = (w', b)"
      by (simp add: Let_def)
    from Cons.IH [OF this] show ?thesis
      by (auto simp: same_registries_def same_shape_def set_obj_def split: if_splits)
  next
    case (KEYDOWN k)
    show ?thesis
    proof (cases k)
      case K_c
      with KEYDOWN Cons.prems have
        "PhotonSource_events self es (w\<lparr>list_heap := (list_heap w)(photons_of (heap w self) := [])\<rparr>) = (w', b)"
        by (simp add: Let_def)
      from Cons.IH [OF this] show ?thesis
        by (auto simp: same_registries_def same_shape_def)
    next
      case K_r
      with KEYDOWN Cons.prems show ?thesis
        by (auto simp: same_registries_def same_shape_def Let_def)
    next
      case K_ESCAPE
      with KEYDOWN Cons.prems have "PhotonSource_events self es w = (w', b)" by (simp add: Let_def)
      from Cons.IH [OF this] show ?thesis .
    next
      case K_other
      with KEYDOWN Cons.prems have "PhotonSource_events self es w = (w', b)" by (simp add: Let_def)
      from Cons.IH [OF this] show ?thesis .
    qed
  next
    case (MOUSEMOTION pos)
    with Cons.prems have "PhotonSource_events self es w = (w', b)" by (simp add: Let_def)
    from Cons.IH [OF this] show ?thesis .
  next
    case (MOUSEBUTTONUP pos bt)
    with Cons.prems have "PhotonSource_events self es w = (w', b)" by (simp add: Let_def)
    from Cons.IH [OF this] show ?thesis .
  next
    case (MOUSEWHEEL dy)
    with Cons.prems have "PhotonSource_events self es w = (w', b)" by (simp add: Let_def)
    from Cons.IH [OF this] show ?thesis .
  next
    case OTHER
    with Cons.prems have "PhotonSource_events self es w = (w', b)" by (simp add: Let_def)
    from Cons.IH [OF this] show ?thesis .
  qed
qed

lemma PhotonSource_events_returns:
  "snd (PhotonSource_events self es w) = (KEYDOWN K_r \<in> set es)"
proof (induction es arbitrary: w)
  case Nil
  show ?case by simp
next
  case (Cons e es)
  show ?case
  proof (cases e)
    case (KEYDOWN k)
    with Cons show ?thesis by (cases k) (simp_all add: Let_def)
  qed (use Cons in \<open>simp_all add: Let_def\<close>)
qed

lemma PhotonSource_events_first_r:
  "KEYDOWN K_r \<in> set es \<Longrightarrow>
     fst (PhotonSource_events self es w)
       = fst (PhotonSource_events self (takeWhile (\<lambda>e. e \<noteq> KEYDOWN K_r) es) w)"
proof (induction es arbitrary: w)
  case Nil
  then show ?case by simp
next
  case (Cons e es)
  show ?case
  proof (cases "e = KEYDOWN K_r")
    case True
    then show ?thesis by (simp add: Let_def)
  next
    case False
    with Cons.prems have r: "KEYDOWN K_r \<in> set es" by simp
    show ?thesis
    proof (cases e)
      case (KEYDOWN k)
      with False Cons.IH [OF r] show ?thesis by (cases k) (simp_all add: Let_def)
    qed (use False Cons.IH [OF r] in \<open>simp_all add: Let_def\<close>)
  qed
qed

lemma emitter_world_eq:
  "emitter_world =
     \<lparr>Figure_objects = [0], Circle_objects = [], PhotonSource_objects = [0],
      heap = (\<lambda>_. figure_init Circle \<lparr>px = 0, py = 0\<rparr> 0)(0 := figure_init PhotonSource (pt 400 300) 5),
      list_heap = (\<lambda>_. []), rnd = half, next_oid = Suc 0, next_pid = 0\<rparr>"
  by (simp add: emitter_world_def new_figure_def init_world_def Let_def)

lemma emitter_circle_world_eq:
  "emitter_circle_world =
     \<lparr>Figure_objects = [0, Suc 0], Circle_objects = [Suc 0], PhotonSource_objects = [0],
      heap = ((\<lambda>_. figure_init Circle \<lparr>px = 0, py = 0\<rparr> 0)(0 := figure_init PhotonSource (pt 400 300) 5))
               (Suc 0 := figure_init Circle (pt 100 100) 10),
      list_heap = (\<lambda>_. []), rnd = half, next_oid = Suc (Suc 0), next_pid = 0\<rparr>"
  by (simp add: emitter_circle_world_def emitter_world_eq new_figure_def Let_def)

lemma collide_centre: "0 \<le> radius s \<Longrightarrow> collide s (mid s)"
  by (simp add: collide_def distance_def)

text \<open>C8. A delete request is a \<open>KEYDOWN K_r\<close> event while the pointer is over the figure.
  For a figure of class \<open>PhotonSource\<close> the call of \<open>listen\<close> succeeds and leaves all
  three registries as they were, whatever the events are, so a delete request on an
  emitter is rejected. For a registered figure of class \<open>Circle\<close>, when the events
  \<open>pre\<close> before the first \<open>KEYDOWN K_r\<close> lead to the world \<open>w1\<close> and the pointer is over the
  circle there, the call removes exactly this object: each of \<^verbatim>\<open>Circle.__objects__\<close> and
  \<^verbatim>\<open>Figure.__objects__\<close> loses its one entry for it, the registry is one shorter and
  every other entry is still a member.\<close>

theorem delete_request:
  "(klass (heap w self) = PhotonSource \<longrightarrow>
      (\<exists>w'. listen mouse self events w = Inr w'
         \<and> Figure_objects w' = Figure_objects w \<and> Circle_objects w' = Circle_objects w
         \<and> PhotonSource_objects w' = PhotonSource_objects w))
   \<and> (klass (heap w self) = Circle \<and> self \<in> set (Circle_objects w) \<and> self \<in> set (Figure_objects w)
       \<and> KEYDOWN K_r \<notin> set pre \<and> Circle_listen mouse self pre w = Inr w1
       \<and> collide (heap w1 self) mouse \<longrightarrow>
        listen mouse self (pre @ KEYDOWN K_r # post) w
          = Inr (w1\<lparr>Circle_objects := remove1 self (Circle_objects w),
                    Figure_objects := remove1 self (Figure_objects w)\<rparr>)
        \<and> Suc (length (remove1 self (Figure_objects w))) = length (Figure_objects w)
        \<and> (b \<noteq> self \<longrightarrow> (b \<in> set (remove1 self (Figure_objects w))) = (b \<in> set (Figure_objects w))))"
proof -
  have emitter: "\<exists>w'. listen mouse self events w = Inr w'
         \<and> Figure_objects w' = Figure_objects w \<and> Circle_objects w' = Circle_objects w
         \<and> PhotonSource_objects w' = PhotonSource_objects w"
    if k: "klass (heap w self) = PhotonSource"
  proof -
    obtain w0 r where ev: "PhotonSource_events self events w = (w0, r)"
      by (cases "PhotonSource_events self events w")
    note keep = PhotonSource_events_keeps [OF ev]
    show ?thesis
    proof (cases r)
      case True
      with ev k keep show ?thesis
        by (simp add: listen_def PhotonSource_listen_def same_registries_def)
    next
      case False
      with PhotonSource_events_returns [of self events w] ev
      have "KEYDOWN K_r \<notin> set events" by simp
      from Circle_listen_prefix [OF this, of mouse self w0 "[]"] obtain w'
        where "Circle_listen mouse self events w0 = Inr w'" "same_registries w0 w'" by blast
      with ev k keep False show ?thesis
        by (simp add: listen_def PhotonSource_listen_def same_registries_def)
    qed
  qed
  have circle: "listen mouse self (pre @ KEYDOWN K_r # post) w
          = Inr (w1\<lparr>Circle_objects := remove1 self (Circle_objects w),
                    Figure_objects := remove1 self (Figure_objects w)\<rparr>)"
    if k: "klass (heap w self) = Circle" and c: "self \<in> set (Circle_objects w)"
      and f: "self \<in> set (Figure_objects w)" and no: "KEYDOWN K_r \<notin> set pre"
      and w1: "Circle_listen mouse self pre w = Inr w1" and hit: "collide (heap w1 self) mouse"
  proof -
    from Circle_listen_prefix [OF no, of mouse self w "KEYDOWN K_r # post"] w1
    have reg: "same_registries w w1" and k1: "klass (heap w1 self) = klass (heap w self)"
      and app: "Circle_listen mouse self (pre @ KEYDOWN K_r # post) w
                  = Circle_listen mouse self (KEYDOWN K_r # post) w1"
      by auto
    have "Circle_listen mouse self (KEYDOWN K_r # post) w1 = unregister self w1"
      using hit by (simp add: Let_def)
    also have "\<dots> = Inr (w1\<lparr>Circle_objects := remove1 self (Circle_objects w),
                    Figure_objects := remove1 self (Figure_objects w)\<rparr>)"
      using k k1 c f reg by (simp add: unregister_def py_remove_def same_registries_def)
    finally show ?thesis using app k by (simp add: listen_def)
  qed
  have len: "Suc (length (remove1 self (Figure_objects w))) = length (Figure_objects w)"
    if "self \<in> set (Figure_objects w)"
    using that by (simp add: length_remove1) (metis Suc_pred length_pos_if_in_set)
  have others: "b \<noteq> self \<longrightarrow> (b \<in> set (remove1 self (Figure_objects w))) = (b \<in> set (Figure_objects w))"
    by simp
  from emitter circle len others show ?thesis by blast
qed

theorem delete_request_witness:
  "klass (heap emitter_circle_world 0) = PhotonSource
   \<and> listen (pt 400 300) 0 [KEYDOWN K_r] emitter_circle_world = Inr emitter_circle_world
   \<and> klass (heap emitter_circle_world 1) = Circle
   \<and> 1 \<in> set (Circle_objects emitter_circle_world) \<and> 1 \<in> set (Figure_objects emitter_circle_world)
   \<and> KEYDOWN K_r \<notin> set []
   \<and> Circle_listen (pt 100 100) 1 [] emitter_circle_world = Inr emitter_circle_world
   \<and> collide (heap emitter_circle_world 1) (pt 100 100)
   \<and> listen (pt 100 100) 1 [KEYDOWN K_r] emitter_circle_world
       = Inr (emitter_circle_world\<lparr>Circle_objects := [], Figure_objects := [0]\<rparr>)"
proof -
  have c: "collide (figure_init Circle (pt 100 100) 10) (pt 100 100)"
    using collide_centre [of "figure_init Circle (pt 100 100) 10"] by (simp add: figure_init_def)
  have e: "listen (pt 400 300) 0 [KEYDOWN K_r] emitter_circle_world = Inr emitter_circle_world"
    by (simp add: listen_def PhotonSource_listen_def emitter_circle_world_eq figure_init_def Let_def)
  show ?thesis
    using delete_request [where w = emitter_circle_world and self = 1 and pre = "[]"
        and mouse = "pt 100 100" and ?w1.0 = emitter_circle_world and post = "[]" and b = 0]
      delete_request [where w = emitter_circle_world and self = 0 and mouse = "pt 400 300"
        and events = "[KEYDOWN K_r]"] c e
    by (simp add: emitter_circle_world_eq figure_init_def)
qed

text \<open>C10. When the event list given to \<open>PhotonSource_listen\<close> contains a \<open>KEYDOWN K_r\<close>,
  the call returns from its own loop and never reaches \<open>Circle_listen\<close>: the result is
  the world that the loop produces from the events before the first \<open>KEYDOWN K_r\<close> alone
  (so toggle and clear are applied only for those), and the emitter's centre, radius and
  drag flag are unchanged, whatever pointer and wheel events the list holds.\<close>

theorem emitter_listen_stops_at_first_r:
  assumes "KEYDOWN K_r \<in> set events"
  shows "\<exists>w'. PhotonSource_listen mouse self events w = Inr w'
           \<and> w' = fst (PhotonSource_events self (takeWhile (\<lambda>e. e \<noteq> KEYDOWN K_r) events) w)
           \<and> mid (heap w' self) = mid (heap w self)
           \<and> radius (heap w' self) = radius (heap w self)
           \<and> activated_movement (heap w' self) = activated_movement (heap w self)"
proof -
  obtain w' b where ev: "PhotonSource_events self events w = (w', b)"
    by (cases "PhotonSource_events self events w")
  from PhotonSource_events_returns [of self events w] assms ev have b: "b = True" by simp
  from PhotonSource_events_first_r [OF assms, of self w] ev
  have pre: "w' = fst (PhotonSource_events self (takeWhile (\<lambda>e. e \<noteq> KEYDOWN K_r) events) w)"
    by simp
  from PhotonSource_events_keeps [OF ev] have "same_shape (heap w self) (heap w' self)" by simp
  then have shape: "mid (heap w' self) = mid (heap w self) \<and> radius (heap w' self) = radius (heap w self)
      \<and> activated_movement (heap w' self) = activated_movement (heap w self)"
    by (simp add: same_shape_def)
  have "PhotonSource_listen mouse self events w = Inr w'"
    using ev b by (simp add: PhotonSource_listen_def)
  with pre shape show ?thesis by blast
qed

theorem emitter_listen_stops_at_first_r_witness:
  "KEYDOWN K_r \<in> set [MOUSEBUTTONDOWN (pt 400 300) 3, KEYDOWN K_r,
                        MOUSEBUTTONDOWN (pt 400 300) 3, MOUSEBUTTONDOWN (pt 400 300) 1,
                        MOUSEMOTION (pt 10 10), MOUSEWHEEL 2]
   \<and> PhotonSource_listen (pt 400 300) 0
        [MOUSEBUTTONDOWN (pt 400 300) 3, KEYDOWN K_r,
         MOUSEBUTTONDOWN (pt 400 300) 3, MOUSEBUTTONDOWN (pt 400 300) 1,
         MOUSEMOTION (pt 10 10), MOUSEWHEEL 2] emitter_world
       = Inr (set_obj 0 ((figure_init PhotonSource (pt 400 300) 5)\<lparr>enabled := False\<rparr>) emitter_world)"
proof -
  have c: "collide (figure_init PhotonSource (pt 400 300) 5) (pt 400 300)"
    using collide_centre [of "figure_init PhotonSource (pt 400 300) 5"] by (simp add: figure_init_def)
  have h: "heap emitter_world 0 = figure_init PhotonSource (pt 400 300) 5"
    by (simp add: emitter_world_eq)
  have e: "enabled (figure_init PhotonSource (pt 400 300) 5)"
    by (simp add: figure_init_def)
  show ?thesis
    using emitter_listen_stops_at_first_r [of
        "[MOUSEBUTTONDOWN (pt 400 300) 3, KEYDOWN K_r,
          MOUSEBUTTONDOWN (pt 400 300) 3, MOUSEBUTTONDOWN (pt 400 300) 1,
          MOUSEMOTION (pt 10 10), MOUSEWHEEL 2]" "pt 400 300" 0 emitter_world]
    by (simp add: Let_def h c e)
qed

subsection \<open>The emitter\<close>









subsection \<open>The scenario, evaluated\<close>

lemma move_loop_done: "\<not> i < length ps \<Longrightarrow> move_loop cfg figs i ps g = Inr (ps, g)"
  by (subst move_loop.simps) simp

lemma move_loop_alive:
  "i < length ps \<Longrightarrow> Photon_blit cfg figs (ps ! i) g = Inr (p', None, g') \<Longrightarrow>
     move_loop cfg figs i ps g = move_loop cfg figs (Suc i) (ps[i := p']) g'"
  by (subst move_loop.simps) simp

lemma move_loop_destroyed:
  "i < length ps \<Longrightarrow> Photon_blit cfg figs (ps ! i) g = Inr (p', Some (- 1), g') \<Longrightarrow>
     remove_photon p' (ps[i := p']) = Some ps' \<Longrightarrow>
     move_loop cfg figs i ps g = move_loop cfg figs (Suc i) ps' g'"
  by (subst move_loop.simps) simp

lemma py_range_90: "py_range 0 360 90 = Inr [0, 90, 180, 270]"
proof -
  have "range_len 0 360 90 = 4" by (simp add: range_len_def)
  moreover have "[0..<4] = [0, Suc 0, 2, 3]" by (simp add: upt_rec)
  ultimately show ?thesis by (simp add: py_range_def)
qed

lemma cos_270: "cos (3 * pi / 2) = 0"
  using cos_3over2_pi by (simp add: mult.commute)

lemma sin_270: "sin (3 * pi / 2) = - 1"
  using sin_3over2_pi by (simp add: mult.commute)

lemma spawn_scenario:
  "radius s = 5 \<Longrightarrow> mid s = pt 400 300 \<Longrightarrow>
   spawn scenario_cfg s [0, 90, 180, 270] 0 half = (first_generation, half)"
  by (simp add: axis_scenario_half Let_def cos_270 sin_270 pt_def first_generation_def
        Photon_init_def)

lemma emitter_1_fields:
  "mid emitter_1 = pt 400 300" "radius emitter_1 = 5" "ticks emitter_1 = 0" "enabled emitter_1"
  "photons_of emitter_1 = 0"
  by (simp_all add: emitter_1_def figure_init_def photons_of_def)

lemma collide_emitter_1:
  "collide emitter_1 (pt a b) \<longleftrightarrow> (400 - a)\<^sup>2 + (300 - b)\<^sup>2 \<le> 25"
  using distance_le_iff [of 5 "pt 400 300" "pt a b"]
  by (simp add: collide_def emitter_1_fields) (simp add: pt_def)

lemma blit_free_flight:
  assumes "coord p = pt a b" "angle p = t"
    and "0 \<le> a + cos t" "a + cos t \<le> 800" "0 \<le> b + sin t" "b + sin t \<le> 600"
    and "\<not> collide emitter_1 (pt (a + cos t) (b + sin t))" "n_reflections p < 8"
  shows "Photon_blit scenario_cfg [emitter_1] p half
           = Inr (p\<lparr>coord := pt (a + cos t) (b + sin t)\<rparr>, None, half)"
proof -
  have c: "\<not> collide emitter_1 \<lparr>px = a + cos t, py = b + sin t\<rparr>"
    using assms(7) by (simp add: pt_def)
  have d: "d_w scenario_cfg = 800" "d_h scenario_cfg = 600" by (simp_all add: scenario_cfg_def)
  from assms(1-6,8) c show ?thesis
    by (simp add: Photon_blit_def axis_scenario_half Let_def pt_def d length_colors)
qed

lemma blit_leaves_canvas:
  assumes "coord p = pt a b" "angle p = t"
    and "\<not> (0 \<le> a + cos t \<and> a + cos t \<le> 800 \<and> 0 \<le> b + sin t \<and> b + sin t \<le> 600)"
  shows "Photon_blit scenario_cfg figs p half
           = Inr (p\<lparr>coord := pt (a + cos t) (b + sin t)\<rparr>, Some (- 1), half)"
proof -
  have d: "d_w scenario_cfg = 800" "d_h scenario_cfg = 600" by (simp_all add: scenario_cfg_def)
  from assms show ?thesis
    by (simp add: Photon_blit_def axis_scenario_half Let_def pt_def d)
qed

lemma emit_ticks_scenario:
  "emit_ticks scenario_cfg 0 emitter_world =
     Inr (emitter_world\<lparr>heap := (heap emitter_world)(0 := emitter_1),
                        list_heap := (list_heap emitter_world)(0 := first_generation),
                        next_pid := 4\<rparr>)"
proof -
  have f: "frequency scenario_cfg = 1" "rays_step scenario_cfg = 90"
    by (simp_all add: scenario_cfg_def)
  have l: "length first_generation = 4" by (simp add: first_generation_def)
  have s: "spawn scenario_cfg ((figure_init PhotonSource (pt 400 300) 5)\<lparr>ticks := 1\<rparr>)
             [0, 90, 180, 270] 0 half = (first_generation, half)"
    by (rule spawn_scenario) (simp_all add: figure_init_def)
  have h: "heap emitter_world 0 = figure_init PhotonSource (pt 400 300) 5"
    "ticks (figure_init PhotonSource (pt 400 300) 5) = 0"
    "enabled (figure_init PhotonSource (pt 400 300) 5)"
    "photons (figure_init PhotonSource (pt 400 300) 5) = None"
    "rnd emitter_world = half" "next_pid emitter_world = 0"
    by (simp_all add: emitter_world_eq figure_init_def)
  show ?thesis
    by (simp add: emit_ticks_def Let_def f h generate_photons_def py_range_90
          photons_of_def PhotonSource_photons_def s l del: spawn.simps)
       (simp add: emitter_world_eq emitter_1_def figure_init_def)
qed

lemma move_first_generation:
  "move_loop scenario_cfg [emitter_1] 0 first_generation half = Inr (first_generation_moved, half)"
proof -
  have 1: "Photon_blit scenario_cfg [emitter_1] (Photon_init 0 (pt 406 301) 0) half
             = Inr (Photon_init 0 (pt 407 301) 0, None, half)"
    using blit_free_flight [of "Photon_init 0 (pt 406 301) 0" 406 301 0]
    by (simp add: Photon_init_def collide_emitter_1)
  have 2: "Photon_blit scenario_cfg [emitter_1] (Photon_init 1 (pt 400 307) (pi / 2)) half
             = Inr (Photon_init 1 (pt 400 308) (pi / 2), None, half)"
    using blit_free_flight [of "Photon_init 1 (pt 400 307) (pi / 2)" 400 307 "pi / 2"]
    by (simp add: Photon_init_def collide_emitter_1)
  have 3: "Photon_blit scenario_cfg [emitter_1] (Photon_init 2 (pt 394 301) pi) half
             = Inr (Photon_init 2 (pt 393 301) pi, None, half)"
    using blit_free_flight [of "Photon_init 2 (pt 394 301) pi" 394 301 pi]
    by (simp add: Photon_init_def collide_emitter_1)
  have 4: "Photon_blit scenario_cfg [emitter_1] (Photon_init 3 (pt 400 295) (3 * pi / 2)) half
             = Inr (Photon_init 3 (pt 400 294) (3 * pi / 2), None, half)"
    using blit_free_flight [of "Photon_init 3 (pt 400 295) (3 * pi / 2)" 400 295 "3 * pi / 2"]
    by (simp add: Photon_init_def collide_emitter_1 cos_270 sin_270)
  let ?a = "Photon_init 0 (pt 407 301) 0" and ?b = "Photon_init 1 (pt 400 308) (pi / 2)"
  let ?c = "Photon_init 2 (pt 393 301) pi" and ?d = "Photon_init 3 (pt 400 294) (3 * pi / 2)"
  let ?qa = "Photon_init 0 (pt 406 301) 0" and ?qb = "Photon_init 1 (pt 400 307) (pi / 2)"
  let ?qc = "Photon_init 2 (pt 394 301) pi" and ?qd = "Photon_init 3 (pt 400 295) (3 * pi / 2)"
  have "move_loop scenario_cfg [emitter_1] 0 [?qa, ?qb, ?qc, ?qd] half
          = move_loop scenario_cfg [emitter_1] (Suc 0) [?a, ?qb, ?qc, ?qd] half"
    using move_loop_alive [of 0 "[?qa, ?qb, ?qc, ?qd]" scenario_cfg "[emitter_1]" half ?a half] 1
    by simp
  also have "\<dots> = move_loop scenario_cfg [emitter_1] (Suc (Suc 0)) [?a, ?b, ?qc, ?qd] half"
    using move_loop_alive [of "Suc 0" "[?a, ?qb, ?qc, ?qd]" scenario_cfg "[emitter_1]" half ?b half] 2
    by simp
  also have "\<dots> = move_loop scenario_cfg [emitter_1] (Suc (Suc (Suc 0))) [?a, ?b, ?c, ?qd] half"
    using move_loop_alive [of "Suc (Suc 0)" "[?a, ?b, ?qc, ?qd]" scenario_cfg "[emitter_1]" half ?c half] 3
    by simp
  also have "\<dots> = move_loop scenario_cfg [emitter_1] (Suc (Suc (Suc (Suc 0)))) [?a, ?b, ?c, ?d] half"
    using move_loop_alive [of "Suc (Suc (Suc 0))" "[?a, ?b, ?c, ?qd]" scenario_cfg "[emitter_1]" half ?d half] 4
    by simp
  also have "\<dots> = Inr ([?a, ?b, ?c, ?d], half)"
    by (rule move_loop_done) simp
  finally show ?thesis
    by (simp add: first_generation_def first_generation_moved_def)
qed

lemma emit_scenario:
  "emit scenario_cfg 0 emitter_world =
     Inr (emitter_world\<lparr>heap := (heap emitter_world)(0 := emitter_1),
                        list_heap := (list_heap emitter_world)(0 := first_generation_moved),
                        next_pid := 4\<rparr>)"
  by (simp add: emit_def emit_ticks_scenario move_photons_def Let_def emitter_1_fields)
     (simp add: emitter_world_eq move_first_generation)

lemma edge_world_fields:
  "heap edge_world 0 = emitter_1" "Figure_objects edge_world = [0]"
  "list_heap edge_world 0 = [photon_right_edge, photon_left_edge]" "rnd edge_world = half"
  by (simp_all add: edge_world_def emitter_world_eq)



text \<open>C2, as the code has it. In the scenario (one emitter at \<open>(400, 300)\<close> with radius 5,
  a spawn on every tick, a step of 90 degrees, no absorption by chance, no jitter, a
  canvas of 800 by 600) one tick of \<open>emit\<close> leaves exactly 4 photons in the emitter's
  collection, headed at 0, 90, 180 and 270 degrees, none reflected. \<open>generate_photons\<close>
  places each of them at \<open>centre + (radius + 1)(cos \<theta>, sin \<theta>) + (0, 1)\<close>, one unit off
  the ring in \<open>y\<close>, and the same tick then moves each one step along its heading.\<close>

theorem scenario_first_tick:
  "map_sum id (owned 0) (emit_ticks scenario_cfg 0 emitter_world) = Inr first_generation
   \<and> map_sum id (owned 0) (emit scenario_cfg 0 emitter_world) = Inr first_generation_moved
   \<and> length first_generation_moved = 4
   \<and> map angle first_generation_moved = [0, pi / 2, pi, 3 * pi / 2]
   \<and> map n_reflections first_generation_moved = [0, 0, 0, 0]
   \<and> map coord first_generation
       = map (\<lambda>t. pt (400 + (5 + 1) * cos t) (300 + (5 + 1) * sin t + 1)) [0, pi / 2, pi, 3 * pi / 2]
   \<and> map coord first_generation_moved
       = map (\<lambda>t. pt (400 + (5 + 2) * cos t) (300 + (5 + 2) * sin t + 1)) [0, pi / 2, pi, 3 * pi / 2]"
proof -
  have a: "map_sum id (owned 0) (emit_ticks scenario_cfg 0 emitter_world) = Inr first_generation"
    by (simp add: emit_ticks_scenario owned_def emitter_1_fields)
  have b: "map_sum id (owned 0) (emit scenario_cfg 0 emitter_world) = Inr first_generation_moved"
    by (simp add: emit_scenario owned_def emitter_1_fields)
  have c: "length first_generation_moved = 4
     \<and> map angle first_generation_moved = [0, pi / 2, pi, 3 * pi / 2]
     \<and> map n_reflections first_generation_moved = [0, 0, 0, 0]"
    by (simp add: first_generation_moved_def Photon_init_def)
  have d: "map coord first_generation
       = map (\<lambda>t. pt (400 + (5 + 1) * cos t) (300 + (5 + 1) * sin t + 1)) [0, pi / 2, pi, 3 * pi / 2]"
    by (simp add: first_generation_def Photon_init_def cos_270 sin_270)
  have e: "map coord first_generation_moved
       = map (\<lambda>t. pt (400 + (5 + 2) * cos t) (300 + (5 + 2) * sin t + 1)) [0, pi / 2, pi, 3 * pi / 2]"
    by (simp add: first_generation_moved_def Photon_init_def cos_270 sin_270)
  from a b c d e show ?thesis by blast
qed

text \<open>The claim C2 as written places each new photon at \<open>centre + (radius + 1)(cos \<theta>, sin \<theta>)\<close>,
  at distance 6 from the centre. The photon headed at 0 degrees is created at
  \<open>(406, 301)\<close>, which is not \<open>(406, 300)\<close> and not at distance 6 from \<open>(400, 300)\<close>.\<close>

theorem spawned_photon_off_the_ring:
  "map_sum id (owned 0) (emit_ticks scenario_cfg 0 emitter_world) = Inr first_generation
   \<and> coord (hd first_generation) = pt 406 301
   \<and> angle (hd first_generation) = 0
   \<and> pt 406 301 \<noteq> pt (400 + (5 + 1) * cos 0) (300 + (5 + 1) * sin 0)
   \<and> distance (pt 400 300) (pt 406 301) \<noteq> 5 + 1"
proof -
  have a: "map_sum id (owned 0) (emit_ticks scenario_cfg 0 emitter_world) = Inr first_generation"
    by (simp add: emit_ticks_scenario owned_def emitter_1_fields)
  have b: "coord (hd first_generation) = pt 406 301 \<and> angle (hd first_generation) = 0"
    by (simp add: first_generation_def Photon_init_def)
  have c: "pt 406 301 \<noteq> pt (400 + (5 + 1) * cos 0) (300 + (5 + 1) * sin 0)"
    by (simp add: pt_def)
  have d: "distance (pt 400 300) (pt 406 301) \<noteq> 5 + 1"
  proof
    assume "distance (pt 400 300) (pt 406 301) = 5 + 1"
    then have "(distance (pt 400 300) (pt 406 301))\<^sup>2 = 36" by simp
    then show False by (simp add: distance_sq pt_def)
  qed
  from a b c d show ?thesis by blast
qed

text \<open>C4 fails on the code. \<open>move_photons\<close> removes a destroyed photon from the list it
  is iterating over, and the iterator's index then passes over the photon that moved
  into the freed place. With the photon at the right edge first in the list and the
  photon at the left edge second, the first is advanced, leaves the canvas and is
  removed; the second is not advanced in this tick and stays in the collection at its
  old position, although its own advance returns \<open>-1\<close>.\<close>

theorem successor_of_removed_photon_is_skipped:
  "owned 0 edge_world = [photon_right_edge, photon_left_edge]
   \<and> map_sum id (owned 0) (move_photons scenario_cfg 0 edge_world) = Inr [photon_left_edge]
   \<and> Photon_blit scenario_cfg (map (heap edge_world) (Figure_objects edge_world)) photon_left_edge half
       = Inr (photon_left_edge\<lparr>coord := pt (- 1) 301\<rparr>, Some (- 1), half)"
proof -
  have a: "owned 0 edge_world = [photon_right_edge, photon_left_edge]"
    by (simp add: owned_def edge_world_fields emitter_1_fields)
  have r: "Photon_blit scenario_cfg [emitter_1] photon_right_edge half
             = Inr (photon_right_edge\<lparr>coord := pt 801 301\<rparr>, Some (- 1), half)"
    using blit_leaves_canvas [of photon_right_edge 800 301 0 "[emitter_1]"]
    by (simp add: photon_right_edge_def)
  have l: "Photon_blit scenario_cfg [emitter_1] photon_left_edge half
             = Inr (photon_left_edge\<lparr>coord := pt (- 1) 301\<rparr>, Some (- 1), half)"
    using blit_leaves_canvas [of photon_left_edge 0 301 pi "[emitter_1]"]
    by (simp add: photon_left_edge_def)
  have rm: "remove_photon (photon_right_edge\<lparr>coord := pt 801 301\<rparr>)
              [photon_right_edge\<lparr>coord := pt 801 301\<rparr>, photon_left_edge] = Some [photon_left_edge]"
    by simp
  have "move_loop scenario_cfg [emitter_1] 0 [photon_right_edge, photon_left_edge] half
          = move_loop scenario_cfg [emitter_1] (Suc 0) [photon_left_edge] half"
    using move_loop_destroyed [of 0 "[photon_right_edge, photon_left_edge]" scenario_cfg
        "[emitter_1]" half "photon_right_edge\<lparr>coord := pt 801 301\<rparr>" half "[photon_left_edge]"]
      r rm by simp
  also have "\<dots> = Inr ([photon_left_edge], half)"
    by (rule move_loop_done) simp
  finally have "move_photons scenario_cfg 0 edge_world
      = Inr (edge_world\<lparr>list_heap := (list_heap edge_world)(0 := [photon_left_edge]), rnd := half\<rparr>)"
    by (simp add: move_photons_def edge_world_fields emitter_1_fields)
  then have b: "map_sum id (owned 0) (move_photons scenario_cfg 0 edge_world) = Inr [photon_left_edge]"
    by (simp add: owned_def edge_world_fields emitter_1_fields)
  from a b l show ?thesis by (simp add: edge_world_fields)
qed


subsection \<open>The order of the interactions in one advance\<close>

lemma Photon_blit_step:
  "Photon_blit cfg figs p g =
     (case Photon_step cfg p g of (p1, g2) \<Rightarrow>
        if \<not> on_canvas cfg (coord p1) then Inr (p1, Some (- 1), g2)
        else (case collide_loop cfg figs p1 g2 of
                Inl e \<Rightarrow> Inl e
              | Inr (p2, Some r, g3) \<Rightarrow> Inr (p2, Some r, g3)
              | Inr (p2, None, g3) \<Rightarrow>
                  if n_reflections p2 < length colors then Inr (p2, None, g3)
                  else Inl IndexError))"
proof -
  obtain a1 g1 where a: "axis cfg g = (a1, g1)" by (cases "axis cfg g")
  obtain a2 g2 where b: "axis cfg g1 = (a2, g2)" by (cases "axis cfg g1")
  show ?thesis
    by (simp add: Photon_blit_def Photon_step_def on_canvas_def Let_def a b)
qed

lemma Photon_step_keeps:
  "Photon_step cfg p g = (p1, g2) \<Longrightarrow> n_reflections p1 = n_reflections p \<and> pid p1 = pid p"
  by (auto simp: Photon_step_def split: prod.splits)

lemma collide_loop_append:
  "collide_loop cfg (xs @ ys) p g =
     (case collide_loop cfg xs p g of
        Inl e \<Rightarrow> Inl e
      | Inr (p1, r, g1) \<Rightarrow>
          (case r of None \<Rightarrow> collide_loop cfg ys p1 g1 | Some v \<Rightarrow> Inr (p1, Some v, g1)))"
proof (induction xs arbitrary: p g)
  case Nil
  show ?case by simp
next
  case (Cons fig xs)
  show ?case
  proof (cases "collide fig (coord p)")
    case False
    with Cons show ?thesis by simp
  next
    case True
    show ?thesis
    proof (cases "compute_photon cfg fig p g")
      case (Inl e)
      with True show ?thesis by simp
    next
      case (Inr res)
      obtain oq g1 where res: "res = (oq, g1)" by (cases res)
      show ?thesis
      proof (cases oq)
        case None
        with True Inr res show ?thesis by simp
      next
        case (Some q)
        with True Inr res Cons.IH [of "q\<lparr>n_reflections := n_reflections q + 1\<rparr>" g1]
        show ?thesis by (simp add: Let_def)
      qed
    qed
  qed
qed

lemma blit_on_canvas:
  assumes "Photon_step cfg p g = (p1, g2)" "on_canvas cfg (coord p1)" "n_reflections p < 8"
  shows "Photon_blit cfg figs p g = collide_loop cfg figs p1 g2"
proof (cases "collide_loop cfg figs p1 g2")
  case (Inl e)
  with assms show ?thesis by (simp add: Photon_blit_step)
next
  case (Inr res)
  obtain p2 r g3 where res: "res = (p2, r, g3)" by (cases res)
  show ?thesis
  proof (cases r)
    case (Some v)
    with assms Inr res show ?thesis by (simp add: Photon_blit_step)
  next
    case None
    from Photon_step_keeps [OF assms(1)] assms(3)
    have "n_reflections p1 < length colors" by (simp add: length_colors)
    with collide_loop_bound [of cfg figs p1 g2 p2 g3] Inr res None
    have "n_reflections p2 < length colors" by simp
    with assms Inr res None show ?thesis by (simp add: Photon_blit_step)
  qed
qed

lemma not_collide_far_90: "\<not> collide circle_far (pt 90 100)"
  using distance_le_iff [of 5 "pt 400 300" "pt 90 100"]
  by (simp add: collide_def circle_far_def figure_init_def) (simp add: pt_def)

lemma collide_C_90: "collide circle_C (pt 90 100)"
  using collide_centre [of circle_C] by (simp add: circle_C_def figure_init_def)

lemma absorb_C: "compute_photon scenario_cfg circle_C (photon_90 a k) half = Inr (None, half)"
proof -
  have "distance (pt 90 100) (pt 90 100) = 0"
    by (simp add: distance_def)
  then show ?thesis
    by (simp add: compute_photon_def circle_C_def figure_init_def photon_90_def)
qed

lemma step_89: "Photon_step scenario_cfg photon_89 half = (photon_90 0 0, half)"
  by (simp add: Photon_step_def axis_scenario_half photon_89_def photon_90_def pt_def)

lemma step_right_edge:
  "Photon_step scenario_cfg photon_right_edge half = (photon_right_edge\<lparr>coord := pt 801 301\<rparr>, half)"
  by (simp add: Photon_step_def axis_scenario_half photon_right_edge_def pt_def)

text \<open>C3, as the code has it. The loop of \<open>Photon_blit\<close> has no exit after a reflection:
  during a single advance every figure of the registry that the new position collides
  with has its interaction applied, in registry order, until one of them destroys the
  photon. In the theorem: the loop treats the first figure of the registry first; a
  figure that does not collide is skipped; a colliding figure that absorbs ends the
  loop at once, so that no later figure is applied; a colliding figure that reflects
  raises the count by one and ends the loop when the count exceeds 7, and otherwise the
  loop goes on with the remaining figures and the reflected photon. For a registry
  \<open>xs @ ys\<close> the figures of \<open>xs\<close> are all treated before those of \<open>ys\<close>, and \<open>ys\<close> is
  not reached when \<open>xs\<close> destroyed the photon. The advance itself is this loop at the new
  position when that is on the canvas, and no figure is applied when it is not. A photon
  that survives the advance has had its count incremented once for each colliding
  figure.\<close>

theorem blit_applies_every_colliding_figure:
  "(\<not> collide fig (coord pc) \<longrightarrow>
      collide_loop cfg (fig # rest) pc gc = collide_loop cfg rest pc gc)
   \<and> (collide fig (coord pc) \<and> compute_photon cfg fig pc gc = Inr (None, g1) \<longrightarrow>
        collide_loop cfg (fig # rest) pc gc = Inr (pc, Some (- 1), g1))
   \<and> (collide fig (coord pc) \<and> compute_photon cfg fig pc gc = Inr (Some q, g1) \<longrightarrow>
        collide_loop cfg (fig # rest) pc gc =
          (if 7 < n_reflections pc + 1
           then Inr (q\<lparr>n_reflections := n_reflections pc + 1\<rparr>, Some (- 1), g1)
           else collide_loop cfg rest (q\<lparr>n_reflections := n_reflections pc + 1\<rparr>) g1))
   \<and> collide_loop cfg (xs @ ys) pc gc =
        (case collide_loop cfg xs pc gc of
           Inl e \<Rightarrow> Inl e
         | Inr (p1, r, g1) \<Rightarrow>
             (case r of None \<Rightarrow> collide_loop cfg ys p1 g1 | Some v \<Rightarrow> Inr (p1, Some v, g1)))
   \<and> collide_loop cfg figs p g = collide_loop cfg (filter (\<lambda>f. collide f (coord p)) figs) p g
   \<and> (Photon_step cfg p g = (ps, gs) \<and> \<not> on_canvas cfg (coord ps) \<longrightarrow>
        Photon_blit cfg figs p g = Inr (ps, Some (- 1), gs))
   \<and> (Photon_step cfg p g = (ps, gs) \<and> on_canvas cfg (coord ps) \<and> n_reflections p < 8 \<longrightarrow>
        Photon_blit cfg figs p g = collide_loop cfg figs ps gs)
   \<and> (Photon_blit cfg figs p g = Inr (p', None, g') \<longrightarrow>
        n_reflections p' = n_reflections p + length (filter (\<lambda>f. collide f (coord p')) figs))"
proof -
  have skip: "collide_loop cfg (fig # rest) pc gc = collide_loop cfg rest pc gc"
    if "\<not> collide fig (coord pc)"
    using that by simp
  have absorbed: "collide_loop cfg (fig # rest) pc gc = Inr (pc, Some (- 1), g1)"
    if "collide fig (coord pc)" "compute_photon cfg fig pc gc = Inr (None, g1)"
    using that by simp
  have reflected: "collide_loop cfg (fig # rest) pc gc =
          (if 7 < n_reflections pc + 1
           then Inr (q\<lparr>n_reflections := n_reflections pc + 1\<rparr>, Some (- 1), g1)
           else collide_loop cfg rest (q\<lparr>n_reflections := n_reflections pc + 1\<rparr>) g1)"
    if "collide fig (coord pc)" "compute_photon cfg fig pc gc = Inr (Some q, g1)"
    using that compute_photon_Some [OF that(2)] by (auto simp: Let_def length_colors)
  have off: "Photon_blit cfg figs p g = Inr (ps, Some (- 1), gs)"
    if "Photon_step cfg p g = (ps, gs)" "\<not> on_canvas cfg (coord ps)"
    using that by (simp add: Photon_blit_step)
  have count: "n_reflections p' = n_reflections p + length (filter (\<lambda>f. collide f (coord p')) figs)"
    if "Photon_blit cfg figs p g = Inr (p', None, g')"
  proof -
    from blit_alive [OF that] obtain p1 g2 where
      l: "collide_loop cfg figs p1 g2 = Inr (p', None, g')" and n: "n_reflections p1 = n_reflections p"
      by blast
    from collide_loop_keeps [OF l] have "coord p' = coord p1" by simp
    with collide_loop_count [OF l] n show ?thesis by simp
  qed
  from skip absorbed reflected off count collide_loop_append [of cfg xs ys pc gc]
    collide_loop_filter [of cfg figs p g] blit_on_canvas [of cfg p g ps gs figs]
  show ?thesis by blast
qed

theorem blit_applies_every_colliding_figure_witness:
  "\<not> collide circle_far (coord (photon_90 0 0))
   \<and> collide_loop scenario_cfg [circle_far, circle_A, circle_B] (photon_90 0 0) half
       = Inr (photon_90 0 2, None, half)
   \<and> collide circle_C (coord (photon_90 0 0))
   \<and> compute_photon scenario_cfg circle_C (photon_90 0 0) half = Inr (None, half)
   \<and> collide_loop scenario_cfg [circle_C, circle_A] (photon_90 0 0) half
       = Inr (photon_90 0 0, Some (- 1), half)
   \<and> collide_loop scenario_cfg [circle_A, circle_C] (photon_90 0 0) half
       = Inr (photon_90 pi 1, Some (- 1), half)
   \<and> collide circle_A (coord (photon_90 0 7))
   \<and> compute_photon scenario_cfg circle_A (photon_90 0 7) half = Inr (Some (photon_90 pi 7), half)
   \<and> collide_loop scenario_cfg [circle_A, circle_B] (photon_90 0 7) half
       = Inr (photon_90 pi 8, Some (- 1), half)
   \<and> collide_loop scenario_cfg ([circle_A] @ [circle_B]) (photon_90 0 0) half
       = collide_loop scenario_cfg [circle_B] (photon_90 pi 1) half
   \<and> Photon_step scenario_cfg photon_89 half = (photon_90 0 0, half)
   \<and> on_canvas scenario_cfg (coord (photon_90 0 0)) \<and> n_reflections photon_89 < 8
   \<and> Photon_blit scenario_cfg [circle_A, circle_B] photon_89 half = Inr (photon_90 0 2, None, half)
   \<and> \<not> on_canvas scenario_cfg (coord (photon_right_edge\<lparr>coord := pt 801 301\<rparr>))
   \<and> Photon_blit scenario_cfg [circle_A, circle_B] photon_right_edge half
       = Inr (photon_right_edge\<lparr>coord := pt 801 301\<rparr>, Some (- 1), half)
   \<and> n_reflections (photon_90 0 2)
       = n_reflections photon_89
         + length (filter (\<lambda>f. collide f (coord (photon_90 0 2))) [circle_A, circle_B])"
proof -
  have c90: "coord (photon_90 a k) = pt 90 100" for a k
    by (simp add: photon_90_def)
  have bA: "compute_photon scenario_cfg circle_A (photon_90 0 k) half = Inr (Some (photon_90 pi k), half)" for k
    using bounce_A [of k] by (simp add: photon_90_def)
  have bB: "compute_photon scenario_cfg circle_B (photon_90 pi k) half = Inr (Some (photon_90 0 k), half)" for k
    using bounce_B [of k] by (simp add: photon_90_def)
  have up: "(photon_90 a k)\<lparr>n_reflections := Suc k\<rparr> = photon_90 a (Suc k)" for a k
    by (simp add: photon_90_def)
  have nr: "n_reflections (photon_90 a k) = k" for a k
    by (simp add: photon_90_def)
  have AB: "collide_loop scenario_cfg [circle_A, circle_B] (photon_90 0 0) half = Inr (photon_90 0 2, None, half)"
    by (simp add: c90 collide_A_90 collide_B_90 bA bB Let_def up nr length_colors numeral_2_eq_2)
  have B1: "collide_loop scenario_cfg [circle_B] (photon_90 pi 1) half = Inr (photon_90 0 2, None, half)"
    by (simp add: c90 collide_B_90 bB Let_def up nr length_colors numeral_2_eq_2)
  have 1: "collide_loop scenario_cfg [circle_far, circle_A, circle_B] (photon_90 0 0) half
       = Inr (photon_90 0 2, None, half)"
    using blit_applies_every_colliding_figure [where fig = circle_far and pc = "photon_90 0 0"
        and cfg = scenario_cfg and rest = "[circle_A, circle_B]" and gc = half]
      not_collide_far_90 AB by (simp add: c90 del: collide_loop.simps)
  have 2: "collide_loop scenario_cfg [circle_C, circle_A] (photon_90 0 0) half
       = Inr (photon_90 0 0, Some (- 1), half)"
    using blit_applies_every_colliding_figure [where fig = circle_C and pc = "photon_90 0 0"
        and cfg = scenario_cfg and rest = "[circle_A]" and gc = half and ?g1.0 = half]
      collide_C_90 absorb_C [of 0 0] by (simp add: c90 del: collide_loop.simps)
  have CA: "collide_loop scenario_cfg [circle_C] (photon_90 pi 1) half = Inr (photon_90 pi 1, Some (- 1), half)"
    by (simp add: c90 collide_C_90 absorb_C)
  have 3: "collide_loop scenario_cfg [circle_A, circle_C] (photon_90 0 0) half
       = Inr (photon_90 pi 1, Some (- 1), half)"
    using blit_applies_every_colliding_figure [where fig = circle_A and pc = "photon_90 0 0"
        and cfg = scenario_cfg and rest = "[circle_C]" and gc = half and ?g1.0 = half
        and q = "photon_90 pi 0"]
      collide_A_90 bA [of 0] CA by (simp add: c90 nr up del: collide_loop.simps)
  have 4: "collide_loop scenario_cfg [circle_A, circle_B] (photon_90 0 7) half
       = Inr (photon_90 pi 8, Some (- 1), half)"
    using blit_applies_every_colliding_figure [where fig = circle_A and pc = "photon_90 0 7"
        and cfg = scenario_cfg and rest = "[circle_B]" and gc = half and ?g1.0 = half
        and q = "photon_90 pi 7"]
      collide_A_90 bA [of 7] by (simp add: c90 nr photon_90_def del: collide_loop.simps)
  have A1: "collide_loop scenario_cfg [circle_A] (photon_90 0 0) half = Inr (photon_90 pi 1, None, half)"
    by (simp add: c90 collide_A_90 bA Let_def up nr length_colors)
  have 5: "collide_loop scenario_cfg ([circle_A] @ [circle_B]) (photon_90 0 0) half
       = collide_loop scenario_cfg [circle_B] (photon_90 pi 1) half"
    using blit_applies_every_colliding_figure [where xs = "[circle_A]" and ys = "[circle_B]"
        and pc = "photon_90 0 0" and cfg = scenario_cfg and gc = half] A1
    by (simp del: collide_loop.simps)
  have oc: "on_canvas scenario_cfg (coord (photon_90 0 0))"
    by (simp add: on_canvas_def c90 scenario_cfg_def pt_def)
  have n89: "n_reflections photon_89 < 8" by (simp add: photon_89_def)
  have 6: "Photon_blit scenario_cfg [circle_A, circle_B] photon_89 half = Inr (photon_90 0 2, None, half)"
    using blit_applies_every_colliding_figure [where p = photon_89 and g = half
        and cfg = scenario_cfg and ps = "photon_90 0 0" and gs = half and figs = "[circle_A, circle_B]"]
      step_89 oc n89 AB by (simp del: collide_loop.simps)
  have off: "\<not> on_canvas scenario_cfg (coord (photon_right_edge\<lparr>coord := pt 801 301\<rparr>))"
    by (simp add: on_canvas_def scenario_cfg_def pt_def)
  have 7: "Photon_blit scenario_cfg [circle_A, circle_B] photon_right_edge half
       = Inr (photon_right_edge\<lparr>coord := pt 801 301\<rparr>, Some (- 1), half)"
    using blit_applies_every_colliding_figure [where p = photon_right_edge and g = half
        and cfg = scenario_cfg and ps = "photon_right_edge\<lparr>coord := pt 801 301\<rparr>" and gs = half
        and figs = "[circle_A, circle_B]"]
      step_right_edge off by (simp del: collide_loop.simps)
  have 8: "n_reflections (photon_90 0 2)
       = n_reflections photon_89
         + length (filter (\<lambda>f. collide f (coord (photon_90 0 2))) [circle_A, circle_B])"
    using blit_applies_every_colliding_figure [where p = photon_89 and g = half
        and cfg = scenario_cfg and p' = "photon_90 0 2" and g' = half and figs = "[circle_A, circle_B]"]
      6 by (simp del: collide_loop.simps)
  from 1 2 3 4 5 6 7 8 not_collide_far_90 collide_C_90 collide_A_90 absorb_C [of 0 0] bA [of 7]
    step_89 oc n89 off
  show ?thesis by (simp add: c90 del: collide_loop.simps)
qed

text \<open>The claim C3 as written says that only the first colliding figure is applied and the
  count grows by at most one per advance. With the two overlapping circles the first
  turns the photon to the angle \<open>\<pi>\<close>; the second is applied as well, turns it back to 0
  and the count is 2 after the single advance.\<close>

theorem second_colliding_figure_is_applied:
  "collide circle_A (pt 90 100) \<and> collide circle_B (pt 90 100)
   \<and> Photon_blit scenario_cfg [circle_A] photon_89 half
       = Inr (\<lparr>pid = 0, coord = pt 90 100, angle = pi, n_reflections = 1\<rparr>, None, half)
   \<and> Photon_blit scenario_cfg [circle_A, circle_B] photon_89 half
       = Inr (\<lparr>pid = 0, coord = pt 90 100, angle = 0, n_reflections = 2\<rparr>, None, half)"
  by (simp only: collide_A_90 collide_B_90 blit_one_circle blit_two_circles simp_thms)

subsection \<open>The spawn cadence and the advance of the owned photons\<close>












subsection \<open>The collection of an emitter\<close>






end
